theory Spec2Isabelle
  imports Complex_Main "HOL-Library.Word"
begin

section \<open>s3report: collecting S3 metrics from CloudWatch and reporting them to Graphite\<close>

text \<open>
  A shallow embedding of \<^verbatim>\<open>s3report.go\<close>. The program's own functions
  (\<^verbatim>\<open>main\<close>, \<^verbatim>\<open>getBucketSize\<close>, \<^verbatim>\<open>getBucketObjectCount\<close>,
  \<^verbatim>\<open>actualGet\<close>) are translated line by line. What they call in Go's standard
  library (\<^verbatim>\<open>time\<close>, \<^verbatim>\<open>strings\<close>, \<^verbatim>\<open>fmt\<close>) is modelled by small
  executable functions with the documented behaviour, and what they ask of the outside
  world (the clock, the CloudWatch service, the resolver, the TCP dial) is a field of an
  environment record. Every interaction with the outside world is appended to a trace,
  and a run of the program is its exit status together with that trace.
\<close>

subsection \<open>Library: strings and decimal formatting\<close>

text \<open>
  Go strings are byte strings, here \<^typ>\<open>string\<close>. On a string of ASCII bytes
  \<^verbatim>\<open>strings.ToLower\<close> maps the letters \<^verbatim>\<open>A-Z\<close> to \<^verbatim>\<open>a-z\<close> and leaves
  every other byte as it is: \<open>lowerChar\<close> on each byte. On any other string it applies
  the Unicode case mapping to the runes of the string; that mapping is not written out
  here, it is a field of the environment below, and \<open>ToLower\<close> is defined after it.
\<close>

definition lowerChar :: "char \<Rightarrow> char" where
  "lowerChar c =
     (case map_of (zip ''ABCDEFGHIJKLMNOPQRSTUVWXYZ'' ''abcdefghijklmnopqrstuvwxyz'') c of
        Some l \<Rightarrow> l
      | None \<Rightarrow> c)"

definition isASCII :: "string \<Rightarrow> bool" where
  "isASCII s = list_all (\<lambda>c. of_char c < (128::nat)) s"

text \<open>The verb \<^verbatim>\<open>%d\<close> of \<^verbatim>\<open>fmt\<close>: decimal digits, a minus sign before a negative number.\<close>

definition digitChar :: "nat \<Rightarrow> char" where
  "digitChar n = ''0123456789'' ! n"

fun showNat :: "nat \<Rightarrow> string" where
  "showNat n = (if n < 10 then [digitChar n] else showNat (n div 10) @ [digitChar (n mod 10)])"

declare showNat.simps [simp del]

definition showInt :: "int \<Rightarrow> string" where
  "showInt i = (if i < 0 then CHR ''-'' # showNat (nat (- i)) else showNat (nat i))"

subsection \<open>Library: instants and the calendar\<close>

text \<open>
  A \<^verbatim>\<open>time.Time\<close> is an instant, counted here in nanoseconds since the Unix epoch
  (1970-01-01T00:00:00Z). The location of a time value only matters to \<^verbatim>\<open>Date\<close>,
  which the program calls on UTC times only. A \<^verbatim>\<open>time.Duration\<close> is a number of
  nanoseconds.
\<close>

type_synonym Time = int

type_synonym Duration = int

definition Second :: Duration where
  "Second = 1000000000"

definition Hour :: Duration where
  "Hour = 3600 * Second"

definition Unix :: "Time \<Rightarrow> int" where
  "Unix t = t div Second"

text \<open>\<^verbatim>\<open>time.Time{}\<close>, the zero value: January 1 of year 1, 00:00:00 UTC.\<close>

definition zeroTime :: Time where
  "zeroTime = - 62135596800 * Second"

definition IsZero :: "Time \<Rightarrow> bool" where
  "IsZero t = (t = zeroTime)"

definition Add :: "Time \<Rightarrow> Duration \<Rightarrow> Time" where
  "Add t d = t + d"

text \<open>
  The proleptic Gregorian calendar. \<open>civil_from_days\<close> turns a number of days since
  1970-01-01 into year, month and day; \<open>days_from_civil\<close> goes back. Years are
  counted from March, so that the leap day is the last day of a year; 400 years are
  146097 days, a century 36524 days (the fourth one a day more), four years 1461 days.
\<close>

definition civil_from_days :: "int \<Rightarrow> int \<times> int \<times> int" where
  "civil_from_days z0 =
    (let z = z0 + 719468;
         era = z div 146097;
         doe = z mod 146097;
         c = min 3 (doe div 36524);
         r = doe - 36524 * c;
         q = r div 1461;
         s = r mod 1461;
         a = min 3 (s div 365);
         doy = s - 365 * a;
         y = 400 * era + 100 * c + 4 * q + a;
         mp = (5 * doy + 2) div 153;
         d = doy - (153 * mp + 2) div 5 + 1;
         m = (if mp < 10 then mp + 3 else mp - 9)
     in (if m \<le> 2 then y + 1 else y, m, d))"

definition days_from_civil :: "int \<Rightarrow> int \<Rightarrow> int \<Rightarrow> int" where
  "days_from_civil y0 m d =
    (let y = (if m \<le> 2 then y0 - 1 else y0);
         era = y div 400;
         yoe = y mod 400;
         doy = (153 * (if m > 2 then m - 3 else m + 9) + 2) div 5 + d - 1;
         doe = yoe * 365 + yoe div 4 - yoe div 100 + doy
     in era * 146097 + doe - 719468)"

text \<open>\<^verbatim>\<open>t.Date()\<close> of a UTC time: the year, month and day in which the instant falls.\<close>

definition Date :: "Time \<Rightarrow> int \<times> int \<times> int" where
  "Date t = civil_from_days (Unix t div 86400)"

text \<open>
  \<^verbatim>\<open>time.Date(year, month, day, hour, min, sec, nsec, time.UTC)\<close> for a month and a
  day of the month that exist (the program passes the fields \<^verbatim>\<open>Date\<close> returned).
\<close>

definition time_Date :: "int \<Rightarrow> int \<Rightarrow> int \<Rightarrow> int \<Rightarrow> int \<Rightarrow> int \<Rightarrow> int \<Rightarrow> Time" where
  "time_Date y m d hour mn sec nsec =
     (days_from_civil y m d * 86400 + hour * 3600 + mn * 60 + sec) * Second + nsec"

subsection \<open>Library: converting a float64 to an int64\<close>

text \<open>
  Every finite \<^verbatim>\<open>float64\<close> is a rational number. The conversion \<^verbatim>\<open>int64(f)\<close>
  discards the fraction. When the result does not fit (or \<open>f\<close> is not a number or is
  infinite) the language leaves the value to the implementation: it is the parameter
  \<open>impl\<close>.
\<close>

datatype float64 = Finite rat | PosInf | NegInf | NaN

definition truncRat :: "rat \<Rightarrow> int" where
  "truncRat q = (if 0 \<le> q then \<lfloor>q\<rfloor> else - \<lfloor>- q\<rfloor>)"

definition fitsInt64 :: "int \<Rightarrow> bool" where
  "fitsInt64 i = (- 9223372036854775808 \<le> i \<and> i \<le> 9223372036854775807)"

definition int64_of_float64 :: "(float64 \<Rightarrow> 64 word) \<Rightarrow> float64 \<Rightarrow> 64 word" where
  "int64_of_float64 impl f =
     (case f of
        Finite q \<Rightarrow> if fitsInt64 (truncRat q) then word_of_int (truncRat q) else impl f
      | _ \<Rightarrow> impl f)"

subsection \<open>The CloudWatch data the program reads and writes\<close>

text \<open>
  The SDK's structures hold pointers: a field that the response leaves out is \<^verbatim>\<open>nil\<close>,
  here \<open>None\<close>, and the program dereferences it without a check. The elements of a
  list are always allocated.
\<close>

record Dimension =
  Name :: "string option"
  Value :: "string option"

record Metric =
  MetricName :: "string option"
  Dimensions :: "Dimension list"

record Datapoint =
  Timestamp :: "Time option"
  Average :: "float64 option"

text \<open>
  \<^verbatim>\<open>cloudwatch.GetMetricStatisticsInput\<close>, as the program fills it. The fields
  \<^verbatim>\<open>MetricName\<close> and \<^verbatim>\<open>Dimensions\<close> carry the suffix \<open>_in\<close>.
\<close>

record GetMetricStatisticsInput =
  StartTime :: Time
  EndTime :: Time
  Period :: int
  MetricName_in :: string
  Namespace :: string
  Statistics :: "string list"
  Dimensions_in :: "Dimension list"
  Unit_in :: string

type_synonym TCPAddr = string

subsection \<open>The outside world\<close>

text \<open>
  One event for each thing the program does to the outside world, in the order in which
  it does it: a line written by \<^verbatim>\<open>log\<close> (without its newline), text printed on the
  standard output, a reading of the clock, a call of the service with its answer
  (\<open>Inl\<close> the error), the dial, the write on the connection and its close.
\<close>

datatype event =
    Log string
  | Print string
  | ListMetricsCall string "string + Metric list"
  | NowCall Time
  | GetMetricStatisticsCall GetMetricStatisticsInput "string + Datapoint list"
  | DialTCPCall TCPAddr "string + unit"
  | ConnWrite string
  | ConnClose

text \<open>
  The environment of a run: the three environment variables, the command line as
  \<^verbatim>\<open>flag.Parse\<close> leaves it (\<open>None\<close> for an option that is not given; a command
  line that \<^verbatim>\<open>flag.Parse\<close> rejects ends the process there and is not modelled), the
  answers of the outside world, which may depend on everything that happened before,
  what the platform makes of a \<^verbatim>\<open>float64\<close> that does not fit an \<^verbatim>\<open>int64\<close>, and
  the Unicode case mapping that \<^verbatim>\<open>strings.ToLower\<close> applies to text that is not ASCII.
\<close>

record env =
  accessKey :: string
  secretKey :: string
  awsRegion :: string
  opt_p :: "string option"
  opt_1 :: bool
  opt_g :: "string option"
  ResolveTCPAddr :: "string \<Rightarrow> string + TCPAddr"
  ListMetrics :: "string \<Rightarrow> string + Metric list"
  Now :: "event list \<Rightarrow> Time"
  GetMetricStatistics :: "event list \<Rightarrow> GetMetricStatisticsInput \<Rightarrow> string + Datapoint list"
  DialTCP :: "event list \<Rightarrow> TCPAddr \<Rightarrow> string + unit"
  float64_impl :: "float64 \<Rightarrow> 64 word"
  unicode_ToLower :: "string \<Rightarrow> string"

text \<open>
  \<^verbatim>\<open>strings.ToLower\<close>: the bytes \<^verbatim>\<open>A-Z\<close> to \<^verbatim>\<open>a-z\<close> on ASCII text, the
  Unicode case mapping of the library on any other text.
\<close>

definition ToLower :: "env \<Rightarrow> string \<Rightarrow> string" where
  "ToLower e s = (if isASCII s then map lowerChar s else unicode_ToLower e s)"

text \<open>
  A computation either stops the process, with an exit status and the trace so far, or
  goes on with a value and the trace. \<^verbatim>\<open>log.Fatal\<close> writes its message and exits
  with status 1; a nil dereference panics, and the runtime exits with status 2.
\<close>

type_synonym 'a result = "(nat \<times> event list) + ('a \<times> event list)"

definition log_Fatal :: "string \<Rightarrow> event list \<Rightarrow> 'a result" where
  "log_Fatal msg tr = Inl (1, tr @ [Log msg])"

definition panic :: "event list \<Rightarrow> 'a result" where
  "panic tr = Inl (2, tr)"

subsection \<open>actualGet, getBucketSize, getBucketObjectCount\<close>

definition actualGet ::
    "env \<Rightarrow> GetMetricStatisticsInput \<Rightarrow> event list \<Rightarrow> (Time \<times> 64 word) result" where
  "actualGet e params tr =
     (let resp = GetMetricStatistics e tr params;
          tr1 = tr @ [GetMetricStatisticsCall params resp]
      in case resp of
           Inl err \<Rightarrow> log_Fatal err tr1
         | Inr datapoints \<Rightarrow>
             (case datapoints of
                [] \<Rightarrow> Inr ((zeroTime, 0), tr1)
              | dp # _ \<Rightarrow>
                  (case Timestamp dp of
                     None \<Rightarrow> panic tr1
                   | Some ts \<Rightarrow>
                       (case Average dp of
                          None \<Rightarrow> panic tr1
                        | Some avg \<Rightarrow> Inr ((ts, int64_of_float64 (float64_impl e) avg), tr1)))))"

text \<open>
  The first five lines of \<^verbatim>\<open>getBucketSize\<close> (lines 133 to 137) and of
  \<^verbatim>\<open>getBucketObjectCount\<close> (lines 157 to 161), which are the same: the day for which
  the metrics are asked, as year, month and day. Then, for each function, the parameters
  it builds from a reading of the clock, and the function itself, which reads the clock
  and hands the parameters to \<^verbatim>\<open>actualGet\<close>.
\<close>

definition targetDate :: "Time \<Rightarrow> bool \<Rightarrow> int \<times> int \<times> int" where
  "targetDate now prev = Date (if prev then Add now (- 24 * Hour) else now)"

definition getBucketSize_params ::
    "Time \<Rightarrow> Dimension list \<Rightarrow> bool \<Rightarrow> GetMetricStatisticsInput" where
  "getBucketSize_params now dims prev =
     (case targetDate now prev of
        (y, m, d) \<Rightarrow>
          \<lparr> StartTime = time_Date y m d 0 0 0 0,
            EndTime = time_Date y m d 0 1 0 0,
            Period = 60,
            MetricName_in = ''BucketSizeBytes'',
            Namespace = ''AWS/S3'',
            Statistics = [''Average''],
            Dimensions_in = dims,
            Unit_in = ''Bytes'' \<rparr>)"

definition getBucketSize ::
    "env \<Rightarrow> Dimension list \<Rightarrow> bool \<Rightarrow> event list \<Rightarrow> (Time \<times> 64 word) result" where
  "getBucketSize e dims prev tr =
     (let now = Now e tr
      in actualGet e (getBucketSize_params now dims prev) (tr @ [NowCall now]))"

definition getBucketObjectCount_params ::
    "Time \<Rightarrow> Dimension list \<Rightarrow> bool \<Rightarrow> GetMetricStatisticsInput" where
  "getBucketObjectCount_params now dims prev =
     (case targetDate now prev of
        (y, m, d) \<Rightarrow>
          \<lparr> StartTime = time_Date y m d 0 0 0 0,
            EndTime = time_Date y m d 0 1 0 0,
            Period = 60,
            MetricName_in = ''NumberOfObjects'',
            Namespace = ''AWS/S3'',
            Statistics = [''Average''],
            Dimensions_in = dims,
            Unit_in = ''Count'' \<rparr>)"

definition getBucketObjectCount ::
    "env \<Rightarrow> Dimension list \<Rightarrow> bool \<Rightarrow> event list \<Rightarrow> (Time \<times> 64 word) result" where
  "getBucketObjectCount e dims prev tr =
     (let now = Now e tr
      in actualGet e (getBucketObjectCount_params now dims prev) (tr @ [NowCall now]))"

subsection \<open>main\<close>

text \<open>
  \<^verbatim>\<open>main\<close> is translated in pieces. First its inner loop over the dimensions of a
  metric (lines 88 to 95): the bucket name and the storage type, each the value of the
  last dimension of that name, and empty when there is none. \<open>None\<close> is the panic of a
  nil dereference.
\<close>

fun dimLoop :: "env \<Rightarrow> Dimension list \<Rightarrow> string \<times> string \<Rightarrow> (string \<times> string) option" where
  "dimLoop e [] (name, stype) = Some (name, stype)"
| "dimLoop e (d # ds) (name, stype) =
     (case Name d of
        None \<Rightarrow> None
      | Some n \<Rightarrow>
          if n = ''BucketName'' then
            (case Value d of None \<Rightarrow> None | Some v \<Rightarrow> dimLoop e ds (v, stype))
          else if n = ''StorageType'' then
            (case Value d of None \<Rightarrow> None | Some v \<Rightarrow> dimLoop e ds (name, ToLower e v))
          else dimLoop e ds (name, stype))"

text \<open>The two lines that \<^verbatim>\<open>fmt.Fprintf\<close> appends to the buffer.\<close>

definition sizeLine :: "string \<Rightarrow> string \<Rightarrow> string \<Rightarrow> 64 word \<Rightarrow> Time \<Rightarrow> string" where
  "sizeLine prefix name stype v t =
     prefix @ name @ ''.'' @ stype @ ''.size '' @ showInt (sint v) @ '' '' @ showInt (Unix t)
       @ [CHR 0x0A]"

definition countLine :: "string \<Rightarrow> string \<Rightarrow> 64 word \<Rightarrow> Time \<Rightarrow> string" where
  "countLine prefix name v t =
     prefix @ name @ ''.objcount '' @ showInt (sint v) @ '' '' @ showInt (Unix t) @ [CHR 0x0A]"

text \<open>
  The body of the loop over the metrics (lines 86 to 114), on the buffer and the trace:
  the dimensions, then the size when the metric is \<^verbatim>\<open>BucketSizeBytes\<close> (lines 97
  to 104), then the count when it is \<^verbatim>\<open>NumberOfObjects\<close> (lines 106 to 113).
\<close>

definition main_loop_size ::
    "env \<Rightarrow> string \<Rightarrow> bool \<Rightarrow> Metric \<Rightarrow> string \<Rightarrow> string \<Rightarrow> string \<Rightarrow> string \<times> event list
      \<Rightarrow> string result" where
  "main_loop_size e prefix prev m mn name stype = (\<lambda>(buf, tr).
     if mn = ''BucketSizeBytes'' then
       (case getBucketSize e (Dimensions m) prev tr of
          Inl stop \<Rightarrow> Inl stop
        | Inr ((t, v), tr1) \<Rightarrow>
            if IsZero t then
              Inr (buf, tr1 @ [Log (''bucket size not available for bucket '' @ name)])
            else Inr (buf @ sizeLine prefix name stype v t, tr1))
     else Inr (buf, tr))"

definition main_loop_count ::
    "env \<Rightarrow> string \<Rightarrow> bool \<Rightarrow> Metric \<Rightarrow> string \<Rightarrow> string \<Rightarrow> string \<times> event list
      \<Rightarrow> string result" where
  "main_loop_count e prefix prev m mn name = (\<lambda>(buf, tr).
     if mn = ''NumberOfObjects'' then
       (case getBucketObjectCount e (Dimensions m) prev tr of
          Inl stop \<Rightarrow> Inl stop
        | Inr ((t, v), tr1) \<Rightarrow>
            if IsZero t then
              Inr (buf, tr1 @ [Log (''object count not available for bucket '' @ name)])
            else Inr (buf @ countLine prefix name v t, tr1))
     else Inr (buf, tr))"

definition main_loop_body ::
    "env \<Rightarrow> string \<Rightarrow> bool \<Rightarrow> Metric \<Rightarrow> string \<times> event list \<Rightarrow> string result" where
  "main_loop_body e prefix prev m = (\<lambda>(buf, tr).
     case dimLoop e (Dimensions m) ('''', '''') of
       None \<Rightarrow> panic tr
     | Some (name, stype) \<Rightarrow>
         (case MetricName m of
            None \<Rightarrow> panic tr
          | Some mn \<Rightarrow>
              (case main_loop_size e prefix prev m mn name stype (buf, tr) of
                 Inl stop \<Rightarrow> Inl stop
               | Inr st \<Rightarrow> main_loop_count e prefix prev m mn name st)))"

fun main_loop ::
    "env \<Rightarrow> string \<Rightarrow> bool \<Rightarrow> Metric list \<Rightarrow> string \<times> event list \<Rightarrow> string result" where
  "main_loop e prefix prev [] st = Inr st"
| "main_loop e prefix prev (m # ms) st =
     (case main_loop_body e prefix prev m st of
        Inl stop \<Rightarrow> Inl stop
      | Inr st1 \<Rightarrow> main_loop e prefix prev ms st1)"

text \<open>
  The end of \<^verbatim>\<open>main\<close> (lines 116 to 129): the buffer goes to the Graphite server
  when it is not empty. The program does not look at what \<^verbatim>\<open>WriteTo\<close> and
  \<^verbatim>\<open>Close\<close> return.
\<close>

definition main_send :: "env \<Rightarrow> TCPAddr \<Rightarrow> string \<Rightarrow> event list \<Rightarrow> nat \<times> event list" where
  \<open>main_send e tcpAddr buf tr =
     (if length buf > 0 then
        (let tr1 = tr @ [Print buf,
                         Print (''sending to graphite server at '' @ tcpAddr @ '':'' @ [CHR 0x0A])];
             conn = DialTCP e tr1 tcpAddr;
             tr2 = tr1 @ [DialTCPCall tcpAddr conn]
         in case conn of
              Inl err \<Rightarrow> (1, tr2 @ [Log err])
            | Inr _ \<Rightarrow> (0, tr2 @ [ConnWrite buf, ConnClose, Print (''done.'' @ [CHR 0x0A])]))
      else
        (0, tr @ [Log ''No metrics were found for today.'',
                  Log ''Try running it later in the day or run with "-1" flag.'']))\<close>

definition main :: "env \<Rightarrow> nat \<times> event list" where
  "main e =
     (if length (accessKey e) = 0 \<or> length (secretKey e) = 0 \<or> length (awsRegion e) = 0 then
        (1, [Log ''Please set the environment variables AWS_ACCESS_KEY_ID, AWS_SECRET_ACCESS_KEY and AWS_REGION''])
      else
        (let prefixDefault = ''s3.'' @ awsRegion e @ ''.'';
             prefix = (case opt_p e of None \<Rightarrow> prefixDefault | Some p \<Rightarrow> p);
             prev = opt_1 e;
             addr = (case opt_g e of None \<Rightarrow> ''127.0.0.1:2003'' | Some a \<Rightarrow> a)
         in case ResolveTCPAddr e addr of
              Inl err \<Rightarrow> (1, [Log err])
            | Inr tcpAddr \<Rightarrow>
                (let resp = ListMetrics e ''AWS/S3'';
                     tr = [ListMetricsCall ''AWS/S3'' resp]
                 in case resp of
                      Inl err \<Rightarrow> (1, tr @ [Log err])
                    | Inr metrics \<Rightarrow>
                        (case main_loop e prefix prev metrics ('''', tr) of
                           Inl stop \<Rightarrow> stop
                         | Inr (buf, tr1) \<Rightarrow> main_send e tcpAddr buf tr1))))"

subsection \<open>Notions used to state the properties\<close>

text \<open>
  The number of the UTC day in which an instant falls (days since 1970-01-01), the first
  instant of a day, and the day the program asks about: the current day, or the day
  before with the option \<^verbatim>\<open>-1\<close>.
\<close>

definition utcDay :: "Time \<Rightarrow> int" where
  "utcDay t = Unix t div 86400"

definition midnight :: "int \<Rightarrow> Time" where
  "midnight D = D * 86400 * Second"

definition targetDay :: "Time \<Rightarrow> bool \<Rightarrow> int" where
  "targetDay now prev = (if prev then utcDay now - 1 else utcDay now)"

text \<open>
  The window of a query: the first minute of the target day, one period of 60 seconds,
  the statistic \<^verbatim>\<open>Average\<close>.
\<close>

definition isWindow :: "Time \<Rightarrow> bool \<Rightarrow> GetMetricStatisticsInput \<Rightarrow> bool" where
  "isWindow now prev p =
     (StartTime p = midnight (targetDay now prev) \<and>
      EndTime p = midnight (targetDay now prev) + 60 * Second \<and>
      Period p = 60 \<and> Statistics p = [''Average''])"

text \<open>
  In a trace, every call of the statistics service comes right after a reading of the
  clock, and asks for the window that this reading gives. \<open>before\<close> is the event
  before the first one of the list.
\<close>

fun queriesOK :: "bool \<Rightarrow> event \<Rightarrow> event list \<Rightarrow> bool" where
  "queriesOK prev before [] = True"
| "queriesOK prev before (ev # tr) =
     ((case ev of
         GetMetricStatisticsCall p r \<Rightarrow>
           (case before of NowCall now \<Rightarrow> isWindow now prev p | _ \<Rightarrow> False)
       | _ \<Rightarrow> True) \<and>
      queriesOK prev ev tr)"

text \<open>
  The value of the last dimension of a given name, empty when there is none; and the
  dimension lists the inner loop gets through: every dimension has its name, and the
  bucket name and the storage type have their value.
\<close>

definition lastValue :: "string \<Rightarrow> Dimension list \<Rightarrow> string" where
  "lastValue k ds =
     (case rev (filter (\<lambda>d. Name d = Some k) ds) of
        [] \<Rightarrow> []
      | d # _ \<Rightarrow> (case Value d of Some v \<Rightarrow> v | None \<Rightarrow> []))"

definition dimOK :: "Dimension \<Rightarrow> bool" where
  "dimOK d =
     (case Name d of
        None \<Rightarrow> False
      | Some n \<Rightarrow> if n = ''BucketName'' \<or> n = ''StorageType'' then Value d \<noteq> None else True)"

definition dimsOK :: "Dimension list \<Rightarrow> bool" where
  "dimsOK ds = list_all dimOK ds"

text \<open>The two kinds of metric the program reports, and what it does for each.\<close>

definition knownKind :: "string \<Rightarrow> bool" where
  "knownKind mn = (mn = ''BucketSizeBytes'' \<or> mn = ''NumberOfObjects'')"

definition paramsFor :: "string \<Rightarrow> Time \<Rightarrow> Dimension list \<Rightarrow> bool \<Rightarrow> GetMetricStatisticsInput" where
  "paramsFor mn now dims prev =
     (if mn = ''BucketSizeBytes'' then getBucketSize_params now dims prev
      else getBucketObjectCount_params now dims prev)"

definition lineFor :: "string \<Rightarrow> string \<Rightarrow> string \<Rightarrow> string \<Rightarrow> 64 word \<Rightarrow> Time \<Rightarrow> string" where
  "lineFor prefix mn name stype v t =
     (if mn = ''BucketSizeBytes'' then sizeLine prefix name stype v t
      else countLine prefix name v t)"

definition unavailable :: "string \<Rightarrow> string \<Rightarrow> string" where
  "unavailable mn name =
     (if mn = ''BucketSizeBytes'' then ''bucket size not available for bucket '' @ name
      else ''object count not available for bucket '' @ name)"

text \<open>
  The datapoint collected by a call of the statistics service: the first one of the
  answer, when it has a timestamp that is not the zero time, and an average. The line of
  a collected datapoint is made of the query and the datapoint alone.
\<close>

fun collected :: "event \<Rightarrow> (GetMetricStatisticsInput \<times> Time \<times> float64) option" where
  "collected (GetMetricStatisticsCall p (Inr (dp # dps))) =
     (case Timestamp dp of
        None \<Rightarrow> None
      | Some ts \<Rightarrow>
          (case Average dp of
             None \<Rightarrow> None
           | Some avg \<Rightarrow> if IsZero ts then None else Some (p, ts, avg)))"
| "collected ev = None"

definition collectedPoints :: "event list \<Rightarrow> (GetMetricStatisticsInput \<times> Time \<times> float64) list" where
  "collectedPoints tr = List.map_filter collected tr"

definition lineOf :: "env \<Rightarrow> string \<Rightarrow> GetMetricStatisticsInput \<times> Time \<times> float64 \<Rightarrow> string" where
  "lineOf e prefix = (\<lambda>(p, ts, avg).
     lineFor prefix (MetricName_in p)
       (lastValue ''BucketName'' (Dimensions_in p))
       (ToLower e (lastValue ''StorageType'' (Dimensions_in p)))
       (int64_of_float64 (float64_impl e) avg) ts)"

text \<open>The queries of a trace, in order, each as the metric name and the dimensions asked.\<close>

fun queryOf :: "event \<Rightarrow> (string \<times> Dimension list) option" where
  "queryOf (GetMetricStatisticsCall p r) = Some (MetricName_in p, Dimensions_in p)"
| "queryOf ev = None"

definition queries :: "event list \<Rightarrow> (string \<times> Dimension list) list" where
  "queries tr = List.map_filter queryOf tr"

text \<open>
  The descriptors of a listing for which the program calls the statistics service, in
  the order of the listing.
\<close>

definition isKnown :: "Metric \<Rightarrow> bool" where
  "isKnown m = (case MetricName m of None \<Rightarrow> False | Some mn \<Rightarrow> knownKind mn)"

definition descriptorOf :: "Metric \<Rightarrow> string \<times> Dimension list" where
  "descriptorOf m = (case MetricName m of None \<Rightarrow> ([], Dimensions m) | Some mn \<Rightarrow> (mn, Dimensions m))"

text \<open>The events on the network to the Graphite server, and the failed calls of the service.\<close>

fun isNet :: "event \<Rightarrow> bool" where
  "isNet (DialTCPCall a r) = True"
| "isNet (ConnWrite s) = True"
| "isNet ConnClose = True"
| "isNet ev = False"

fun apiError :: "event \<Rightarrow> bool" where
  "apiError (ListMetricsCall ns (Inl err)) = True"
| "apiError (GetMetricStatisticsCall p (Inl err)) = True"
| "apiError ev = False"

fun isCall :: "event \<Rightarrow> bool" where
  "isCall (ListMetricsCall ns r) = True"
| "isCall (GetMetricStatisticsCall p r) = True"
| "isCall ev = False"

text \<open>The prefix and the address a run uses, as \<^verbatim>\<open>main\<close> computes them.\<close>

definition prefixOf :: "env \<Rightarrow> string" where
  "prefixOf e = (case opt_p e of None \<Rightarrow> ''s3.'' @ awsRegion e @ ''.'' | Some p \<Rightarrow> p)"

definition addrOf :: "env \<Rightarrow> string" where
  "addrOf e = (case opt_g e of None \<Rightarrow> ''127.0.0.1:2003'' | Some a \<Rightarrow> a)"

text \<open>The environment variables are set: the first check of \<^verbatim>\<open>main\<close> passes.\<close>

definition envOK :: "env \<Rightarrow> bool" where
  "envOK e = (accessKey e \<noteq> [] \<and> secretKey e \<noteq> [] \<and> awsRegion e \<noteq> [])"

text \<open>A line ends with one newline: its last byte is a newline, the byte before is not.\<close>

definition endsWithOneNewline :: "string \<Rightarrow> bool" where
  "endsWithOneNewline l =
     (case rev l of
        c # c' # rest \<Rightarrow> c = CHR 0x0A \<and> c' \<noteq> CHR 0x0A
      | _ \<Rightarrow> False)"



subsection \<open>Example runs\<close>

text \<open>
  A bucket \<^verbatim>\<open>logs\<close> with the storage type \<^verbatim>\<open>StandardStorage\<close>, and a world
  in which the clock stands at 2015-05-01T13:45:10Z, the listing and the statistics
  service give fixed answers, and the dial has a fixed outcome.
\<close>

definition dim :: "string \<Rightarrow> string \<Rightarrow> Dimension" where
  "dim n v = \<lparr>Name = Some n, Value = Some v\<rparr>"

definition logsDims :: "Dimension list" where
  "logsDims = [dim ''StorageType'' ''StandardStorage'', dim ''BucketName'' ''logs'']"

definition logsSize :: Metric where
  "logsSize = \<lparr>MetricName = Some ''BucketSizeBytes'', Dimensions = logsDims\<rparr>"

definition logsCount :: Metric where
  "logsCount = \<lparr>MetricName = Some ''NumberOfObjects'', Dimensions = [dim ''BucketName'' ''logs'']\<rparr>"

definition atNoon :: Time where
  "atNoon = time_Date 2015 5 1 13 45 10 0"

definition world :: "(string + Metric list) \<Rightarrow> (string + Datapoint list) \<Rightarrow> (string + unit) \<Rightarrow> env" where
  "world listing stats dial =
     \<lparr> accessKey = ''AKIDEXAMPLE'', secretKey = ''SECRET'', awsRegion = ''us-east-1'',
       opt_p = None, opt_1 = False, opt_g = None,
       ResolveTCPAddr = (\<lambda>a. Inr a),
       ListMetrics = (\<lambda>ns. listing),
       Now = (\<lambda>tr. atNoon),
       GetMetricStatistics = (\<lambda>tr p. stats),
       DialTCP = (\<lambda>tr a. dial),
       float64_impl = (\<lambda>f. - 9223372036854775808),
       unicode_ToLower = (\<lambda>s. s) \<rparr>"

text \<open>
  The datapoint of 2015-05-01T00:00:30Z with the average 123456.7: the \<^verbatim>\<open>float64\<close>
  nearest to 123456.7 is 8483879823553331 / 2^36.
\<close>

definition point :: "Time \<Rightarrow> rat \<Rightarrow> Datapoint" where
  "point ts avg = \<lparr>Timestamp = Some ts, Average = Some (Finite avg)\<rparr>"

definition logsPoint :: Datapoint where
  "logsPoint = point (time_Date 2015 5 1 0 0 30 0) (8483879823553331 / 68719476736)"

section \<open>Properties\<close>

subsection \<open>The calendar\<close>

lemma century_rest_bounds:
  fixes doe :: int
  assumes "0 \<le> doe" "doe < 146097"
  shows "0 \<le> doe - 36524 * min 3 (doe div 36524) \<and> doe - 36524 * min 3 (doe div 36524) \<le> 36524"
proof -
  define k where "k = doe div 36524"
  define t where "t = doe mod 36524"
  have "doe = 36524 * k + t" "0 \<le> t" "t < 36524" unfolding k_def t_def by simp_all
  then show ?thesis using assms unfolding k_def[symmetric] min_def by (cases "3 \<le> k") simp_all
qed

lemma quad_bounds:
  fixes r :: int
  assumes "0 \<le> r" "r \<le> 36524"
  shows "0 \<le> r div 1461 \<and> r div 1461 \<le> 24"
proof -
  define k where "k = r div 1461"
  define t where "t = r mod 1461"
  have "r = 1461 * k + t" "0 \<le> t" "t < 1461" unfolding k_def t_def by simp_all
  then show ?thesis using assms unfolding k_def[symmetric] by linarith
qed

lemma doy_bounds:
  fixes s :: int
  assumes "0 \<le> s" "s < 1461"
  shows "0 \<le> s - 365 * min 3 (s div 365) \<and> s - 365 * min 3 (s div 365) \<le> 365"
proof -
  define k where "k = s div 365"
  define t where "t = s mod 365"
  have "s = 365 * k + t" "0 \<le> t" "t < 365" unfolding k_def t_def by simp_all
  then show ?thesis using assms unfolding k_def[symmetric] min_def by (cases "3 \<le> k") simp_all
qed

lemma mp_bounds:
  fixes doy :: int
  assumes "0 \<le> doy" "doy \<le> 365"
  shows "0 \<le> (5 * doy + 2) div 153 \<and> (5 * doy + 2) div 153 \<le> 11"
proof -
  define k where "k = (5 * doy + 2) div 153"
  define t where "t = (5 * doy + 2) mod 153"
  have "5 * doy + 2 = 153 * k + t" "0 \<le> t" "t < 153" unfolding k_def t_def by simp_all
  then show ?thesis using assms unfolding k_def[symmetric] by linarith
qed

lemma yoe_div4:
  fixes c q a :: int
  assumes "0 \<le> a" "a \<le> 3"
  shows "(100 * c + 4 * q + a) div 4 = 25 * c + q"
  by (rule int_div_pos_eq [where r = a]) (use assms in simp_all)

lemma yoe_div100:
  fixes c q a :: int
  assumes "0 \<le> a" "a \<le> 3" "0 \<le> q" "q \<le> 24"
  shows "(100 * c + 4 * q + a) div 100 = c"
  by (rule int_div_pos_eq [where r = "4 * q + a"]) (use assms in simp_all)

text \<open>Going from a day number to year, month and day and back gives the day number.\<close>

lemma days_from_civil_civil_from_days:
  "(case civil_from_days z of (y, m, d) \<Rightarrow> days_from_civil y m d) = z"
proof -
  define era where "era = (z + 719468) div 146097"
  define doe where "doe = (z + 719468) mod 146097"
  define c where "c = min 3 (doe div 36524)"
  define r where "r = doe - 36524 * c"
  define q where "q = r div 1461"
  define s where "s = r mod 1461"
  define a where "a = min 3 (s div 365)"
  define doy where "doy = s - 365 * a"
  define yoe where "yoe = 100 * c + 4 * q + a"
  define mp where "mp = (5 * doy + 2) div 153"
  define d where "d = doy - (153 * mp + 2) div 5 + 1"
  define m where "m = (if mp < 10 then mp + 3 else mp - 9)"
  define y where "y = 400 * era + yoe"
  have cfd: "civil_from_days z = (if m \<le> 2 then y + 1 else y, m, d)"
    unfolding civil_from_days_def Let_def era_def doe_def c_def r_def q_def s_def a_def
      doy_def yoe_def mp_def d_def m_def y_def by (simp only: add.assoc)
  have z: "z + 719468 = era * 146097 + doe" and doe: "0 \<le> doe" "doe < 146097"
    unfolding era_def doe_def by simp_all
  have c: "0 \<le> c" "c \<le> 3" unfolding c_def using doe by simp_all
  have r: "0 \<le> r" "r \<le> 36524"
    unfolding r_def c_def using century_rest_bounds [OF doe] by simp_all
  have rs: "r = 1461 * q + s" and s: "0 \<le> s" "s < 1461" unfolding q_def s_def by simp_all
  have q: "0 \<le> q" "q \<le> 24" unfolding q_def using quad_bounds [OF r] by simp_all
  have a: "0 \<le> a" "a \<le> 3" unfolding a_def using s by simp_all
  have doy: "0 \<le> doy" "doy \<le> 365"
    unfolding doy_def a_def using doy_bounds [OF s] by simp_all
  have mp: "0 \<le> mp" "mp \<le> 11" unfolding mp_def using mp_bounds [OF doy] by simp_all
  have yoe: "0 \<le> yoe" "yoe < 400" unfolding yoe_def using c q a by linarith+
  have y4: "yoe div 4 = 25 * c + q" unfolding yoe_def by (rule yoe_div4 [OF a])
  have y100: "yoe div 100 = c" unfolding yoe_def by (rule yoe_div100 [OF a q])
  have ydiv: "y div 400 = era" and ymod: "y mod 400 = yoe"
    unfolding y_def using yoe by simp_all
  have doe_eq: "yoe * 365 + yoe div 4 - yoe div 100 + doy = doe"
    unfolding y4 y100 using rs unfolding yoe_def r_def doy_def by (simp add: algebra_simps)
  have mp': "(if m > 2 then m - 3 else m + 9) = mp"
    unfolding m_def using mp by (cases "mp < 10") simp_all
  have d': "(153 * mp + 2) div 5 + d - 1 = doy" unfolding d_def by simp
  have "days_from_civil (if m \<le> 2 then y + 1 else y) m d = era * 146097 + doe - 719468"
    unfolding days_from_civil_def Let_def mp' d' using doe_eq by (simp add: ydiv ymod)
  then show ?thesis using cfd z by simp
qed

lemma time_Date_civil_from_days:
  "civil_from_days D = (y, m, d) \<Longrightarrow>
     time_Date y m d hour mn sec nsec = (D * 86400 + hour * 3600 + mn * 60 + sec) * Second + nsec"
  using days_from_civil_civil_from_days [of D] by (simp add: time_Date_def)

text \<open>Some dates, as a check of the calendar.\<close>

lemma calendar_examples:
  "civil_from_days 0 = (1970, 1, 1)"
  "civil_from_days 16556 = (2015, 5, 1)"
  "civil_from_days 11016 = (2000, 2, 29)"
  "civil_from_days 11017 = (2000, 3, 1)"
  "civil_from_days (- 25509) = (1900, 2, 28)"
  "civil_from_days (- 25508) = (1900, 3, 1)"
  "civil_from_days (- 719162) = (1, 1, 1)"
  by code_simp+

lemma time_Date_examples:
  "time_Date 2015 5 1 0 0 30 0 = 1430438430 * Second"
  "time_Date 2015 5 1 13 45 10 0 = 1430487910 * Second"
  "time_Date 1 1 1 0 0 0 0 = zeroTime"
  by (simp_all add: time_Date_def days_from_civil_def zeroTime_def)

lemma zeroTime_Date: "Date zeroTime = (1, 1, 1)" "Unix zeroTime = - 62135596800"
  by (simp_all add: zeroTime_def Second_def Date_def Unix_def calendar_examples)

subsection \<open>The target day and the window\<close>

lemma utcDay_Add_minus_24h: "utcDay (Add now (- 24 * Hour)) = utcDay now - 1"
proof -
  have "(now + (- 86400) * 1000000000) div 1000000000 = - 86400 + now div 1000000000"
    by (rule div_mult_self1) simp
  moreover have "(- 86400 + now div 1000000000) div 86400 = now div 1000000000 div 86400 - 1"
    using div_mult_self3 [of "86400::int" "-1" "now div 1000000000"] by simp
  ultimately show ?thesis
    by (simp add: utcDay_def Add_def Hour_def Second_def Unix_def)
qed

lemma targetDate_eq: "targetDate now prev = civil_from_days (targetDay now prev)"
  using utcDay_Add_minus_24h [of now]
  by (simp add: targetDate_def targetDay_def Date_def utcDay_def)

lemma utcDay_midnight: "utcDay (midnight D) = D"
  by (simp add: utcDay_def midnight_def Unix_def Second_def)

lemma utcDay_midnight_plus_minute: "utcDay (midnight D + 60 * Second) = D"
proof -
  have "(D * 86400 + 60) div 86400 = D"
    by (rule int_div_pos_eq [where r = 60]) simp_all
  moreover have "(D * 86400 * 1000000000 + 60 * 1000000000) div 1000000000 = D * 86400 + 60"
    by (rule int_div_pos_eq [where r = 0]) simp_all
  ultimately show ?thesis
    by (simp add: utcDay_def midnight_def Unix_def Second_def)
qed

lemma getBucketSize_params_eq:
  "getBucketSize_params now dims prev =
     \<lparr> StartTime = midnight (targetDay now prev),
       EndTime = midnight (targetDay now prev) + 60 * Second,
       Period = 60, MetricName_in = ''BucketSizeBytes'', Namespace = ''AWS/S3'',
       Statistics = [''Average''], Dimensions_in = dims, Unit_in = ''Bytes'' \<rparr>"
proof -
  obtain y m d where ymd: "civil_from_days (targetDay now prev) = (y, m, d)"
    by (cases "civil_from_days (targetDay now prev)") auto
  show ?thesis
    unfolding getBucketSize_params_def targetDate_eq ymd
    by (simp add: time_Date_civil_from_days [OF ymd] midnight_def algebra_simps)
qed

lemma getBucketObjectCount_params_eq:
  "getBucketObjectCount_params now dims prev =
     \<lparr> StartTime = midnight (targetDay now prev),
       EndTime = midnight (targetDay now prev) + 60 * Second,
       Period = 60, MetricName_in = ''NumberOfObjects'', Namespace = ''AWS/S3'',
       Statistics = [''Average''], Dimensions_in = dims, Unit_in = ''Count'' \<rparr>"
proof -
  obtain y m d where ymd: "civil_from_days (targetDay now prev) = (y, m, d)"
    by (cases "civil_from_days (targetDay now prev)") auto
  show ?thesis
    unfolding getBucketObjectCount_params_def targetDate_eq ymd
    by (simp add: time_Date_civil_from_days [OF ymd] midnight_def algebra_simps)
qed

lemma paramsFor_simps:
  "StartTime (paramsFor mn now dims prev) = midnight (targetDay now prev)"
  "EndTime (paramsFor mn now dims prev) = midnight (targetDay now prev) + 60 * Second"
  "Period (paramsFor mn now dims prev) = 60"
  "Statistics (paramsFor mn now dims prev) = [''Average'']"
  "Dimensions_in (paramsFor mn now dims prev) = dims"
  "Namespace (paramsFor mn now dims prev) = ''AWS/S3''"
  "knownKind mn \<Longrightarrow> MetricName_in (paramsFor mn now dims prev) = mn"
  by (auto simp add: paramsFor_def getBucketSize_params_eq getBucketObjectCount_params_eq
      knownKind_def)

lemma isWindow_paramsFor: "isWindow now prev (paramsFor mn now dims prev)"
  by (simp add: isWindow_def paramsFor_simps)

subsection \<open>Numbers and lines\<close>

lemma floor_rat_numeral_div: "\<lfloor>(numeral a :: rat) / numeral b\<rfloor> = numeral a div numeral b"
  using floor_divide_of_int_eq [of "numeral a" "numeral b", where ?'a = rat] by simp

lemma sint_word_of_int_fits: "fitsInt64 i \<Longrightarrow> sint (word_of_int i :: 64 word) = i"
  by (simp add: fitsInt64_def sint_sbintrunc' signed_take_bit_int_eq_self)

lemma int64_of_float64_Finite:
  "fitsInt64 (truncRat q) \<Longrightarrow> sint (int64_of_float64 impl (Finite q)) = truncRat q"
  by (simp add: int64_of_float64_def sint_word_of_int_fits)

lemma digitChar_digit: "n < 10 \<Longrightarrow> digitChar n \<in> set ''0123456789''"
  unfolding digitChar_def by (rule nth_mem) simp

lemma showNat_digits: "showNat n \<noteq> [] \<and> set (showNat n) \<subseteq> set ''0123456789''"
proof (induction n rule: showNat.induct)
  case (1 n)
  show ?case
  proof (cases "n < 10")
    case True
    then show ?thesis
      using digitChar_digit [of n] by (subst showNat.simps, subst showNat.simps) simp
  next
    case False
    have "n mod 10 < 10" by simp
    then have "digitChar (n mod 10) \<in> set ''0123456789''" by (rule digitChar_digit)
    moreover have "set (showNat (n div 10)) \<subseteq> set ''0123456789''" using 1 False by simp
    ultimately show ?thesis
      using False by (subst showNat.simps, subst showNat.simps) simp
  qed
qed

lemma showInt_last: "showInt i \<noteq> [] \<and> last (showInt i) \<noteq> CHR 0x0A"
proof -
  have ne: "showNat n \<noteq> []" for n
    using showNat_digits [of n] by simp
  have "last (showNat n) \<in> set (showNat n)" for n
    by (rule last_in_set [OF ne])
  then have l: "last (showNat n) \<in> set ''0123456789''" for n
    using showNat_digits [of n] by blast
  have "last (showNat n) \<noteq> CHR 0x0A" for n using l [of n] by auto
  then show ?thesis by (simp add: showInt_def ne)
qed

lemma showInt_no_newline: "CHR 0x0A \<notin> set (showInt i)"
  using showNat_digits [of "nat i"] showNat_digits [of "nat (- i)"]
  by (auto simp add: showInt_def)

subsection \<open>The dimensions\<close>

lemma lastValue_Cons:
  "lastValue k (d # ds) =
     (if \<exists>d' \<in> set ds. Name d' = Some k then lastValue k ds
      else if Name d = Some k then (case Value d of Some v \<Rightarrow> v | None \<Rightarrow> [])
      else [])"
proof (cases "filter (\<lambda>d. Name d = Some k) ds = []")
  case True
  then have "\<not> (\<exists>d' \<in> set ds. Name d' = Some k)" by (simp add: filter_empty_conv)
  then show ?thesis using True by (simp add: lastValue_def)
next
  case False
  then have ex: "\<exists>d' \<in> set ds. Name d' = Some k" by (simp add: filter_empty_conv)
  from False obtain x xs where "rev (filter (\<lambda>d. Name d = Some k) ds) = x # xs"
    by (cases "rev (filter (\<lambda>d. Name d = Some k) ds)") auto
  then show ?thesis using ex by (simp add: lastValue_def)
qed

lemma lastValue_absent: "\<forall>d \<in> set ds. Name d \<noteq> Some k \<Longrightarrow> lastValue k ds = []"
  by (simp add: lastValue_def filter_empty_conv [THEN iffD2])

lemma dimLoop_dimsOK:
  "dimsOK ds \<Longrightarrow>
     dimLoop e ds (n, s) =
       Some (if \<exists>d \<in> set ds. Name d = Some ''BucketName'' then lastValue ''BucketName'' ds else n,
             if \<exists>d \<in> set ds. Name d = Some ''StorageType''
             then ToLower e (lastValue ''StorageType'' ds) else s)"
proof (induction ds arbitrary: n s)
  case Nil
  then show ?case by simp
next
  case (Cons d ds)
  from Cons.prems have ok: "dimOK d" and oks: "dimsOK ds" by (simp_all add: dimsOK_def)
  from ok obtain nm where nm: "Name d = Some nm" by (auto simp add: dimOK_def split: option.splits)
  show ?case
  proof (cases "nm = ''BucketName''")
    case True
    with ok nm obtain v where v: "Value d = Some v" by (auto simp add: dimOK_def)
    show ?thesis using True nm v Cons.IH [OF oks, of v s] by (simp add: lastValue_Cons)
  next
    case notBN: False
    show ?thesis
    proof (cases "nm = ''StorageType''")
      case True
      with ok nm obtain v where v: "Value d = Some v" by (auto simp add: dimOK_def)
      show ?thesis using True nm v Cons.IH [OF oks, of n "ToLower e v"] by (simp add: lastValue_Cons)
    next
      case False
      show ?thesis using notBN False nm Cons.IH [OF oks, of n s] by (simp add: lastValue_Cons)
    qed
  qed
qed

lemma dimLoop_not_dimsOK: "\<not> dimsOK ds \<Longrightarrow> dimLoop e ds acc = None"
proof (induction ds arbitrary: acc)
  case Nil
  then show ?case by (simp add: dimsOK_def)
next
  case (Cons d ds)
  obtain n s where acc: "acc = (n, s)" by (cases acc)
  show ?case
  proof (cases "dimOK d")
    case True
    with Cons.prems have "\<not> dimsOK ds" by (simp add: dimsOK_def)
    then have "dimLoop e ds a = None" for a by (rule Cons.IH)
    then show ?thesis unfolding acc by (simp split: option.splits)
  next
    case False
    then show ?thesis unfolding acc by (auto simp add: dimOK_def split: option.splits if_splits)
  qed
qed

lemma dimLoop_eq:
  "dimLoop e ds ([], []) =
     (if dimsOK ds then Some (lastValue ''BucketName'' ds, ToLower e (lastValue ''StorageType'' ds))
      else None)"
proof (cases "dimsOK ds")
  case True
  have "lastValue k ds = []" if "\<not> (\<exists>d \<in> set ds. Name d = Some k)" for k
    using that by (intro lastValue_absent) simp
  then show ?thesis using True dimLoop_dimsOK [OF True, of e "[]" "[]"]
    by (auto simp add: ToLower_def isASCII_def)
next
  case False
  then show ?thesis by (simp add: dimLoop_not_dimsOK)
qed

subsection \<open>One metric\<close>

lemma getBucketSize_params_fields:
  "MetricName_in (getBucketSize_params now dims prev) = ''BucketSizeBytes''"
  "Dimensions_in (getBucketSize_params now dims prev) = dims"
  "Unit_in (getBucketSize_params now dims prev) = ''Bytes''"
  by (simp_all add: getBucketSize_params_eq)

lemma getBucketObjectCount_params_fields:
  "MetricName_in (getBucketObjectCount_params now dims prev) = ''NumberOfObjects''"
  "Dimensions_in (getBucketObjectCount_params now dims prev) = dims"
  "Unit_in (getBucketObjectCount_params now dims prev) = ''Count''"
  by (simp_all add: getBucketObjectCount_params_eq)

text \<open>
  What the body of the loop does for a metric of one of the two kinds whose dimensions
  can be read: one reading of the clock, one call of the service, and then one of five
  ends.
\<close>

lemma main_loop_body_known:
  assumes mn: "MetricName m = Some mn" and kind: "knownKind mn"
    and ok: "dimsOK (Dimensions m)"
  shows "main_loop_body e prefix prev m (buf, tr) =
     (let now = Now e tr;
          tr1 = tr @ [NowCall now];
          p = paramsFor mn now (Dimensions m) prev;
          resp = GetMetricStatistics e tr1 p;
          tr2 = tr1 @ [GetMetricStatisticsCall p resp];
          name = lastValue ''BucketName'' (Dimensions m)
      in case resp of
           Inl err \<Rightarrow> Inl (1, tr2 @ [Log err])
         | Inr [] \<Rightarrow> Inr (buf, tr2 @ [Log (unavailable mn name)])
         | Inr (dp # dps) \<Rightarrow>
             (case Timestamp dp of
                None \<Rightarrow> Inl (2, tr2)
              | Some ts \<Rightarrow>
                  (case Average dp of
                     None \<Rightarrow> Inl (2, tr2)
                   | Some avg \<Rightarrow>
                       if IsZero ts then Inr (buf, tr2 @ [Log (unavailable mn name)])
                       else Inr (buf @ lineOf e prefix (p, ts, avg), tr2))))"
proof -
  define now where "now = Now e tr"
  define p where "p = paramsFor mn now (Dimensions m) prev"
  define resp where "resp = GetMetricStatistics e (tr @ [NowCall now]) p"
  define tr2 where "tr2 = (tr @ [NowCall now]) @ [GetMetricStatisticsCall p resp]"
  define name where "name = lastValue ''BucketName'' (Dimensions m)"
  define stype where "stype = ToLower e (lastValue ''StorageType'' (Dimensions m))"
  have p_fields: "MetricName_in p = mn" "Dimensions_in p = Dimensions m"
    using kind by (simp_all add: p_def paramsFor_simps)
  have get: "(if mn = ''BucketSizeBytes'' then getBucketSize e (Dimensions m) prev tr
              else getBucketObjectCount e (Dimensions m) prev tr) = actualGet e p (tr @ [NowCall now])"
    by (simp add: getBucketSize_def getBucketObjectCount_def p_def paramsFor_def now_def Let_def)
  have body: "main_loop_body e prefix prev m (buf, tr) =
      (case actualGet e p (tr @ [NowCall now]) of
         Inl stop \<Rightarrow> Inl stop
       | Inr ((t, v), tr') \<Rightarrow>
           if IsZero t then Inr (buf, tr' @ [Log (unavailable mn name)])
           else Inr (buf @ lineFor prefix mn name stype v t, tr'))"
  proof (cases "mn = ''BucketSizeBytes''")
    case True
    then show ?thesis
      using get mn ok
      by (simp add: main_loop_body_def dimLoop_eq main_loop_size_def main_loop_count_def
          lineFor_def unavailable_def name_def stype_def split: sum.splits prod.splits)
  next
    case False
    with kind have "mn = ''NumberOfObjects''" by (simp add: knownKind_def)
    then show ?thesis
      using get mn ok
      by (simp add: main_loop_body_def dimLoop_eq main_loop_size_def main_loop_count_def
          lineFor_def unavailable_def name_def stype_def split: sum.splits prod.splits)
  qed
  have act: "actualGet e p (tr @ [NowCall now]) =
      (case resp of
         Inl err \<Rightarrow> Inl (1, tr2 @ [Log err])
       | Inr [] \<Rightarrow> Inr ((zeroTime, 0), tr2)
       | Inr (dp # dps) \<Rightarrow>
           (case Timestamp dp of
              None \<Rightarrow> Inl (2, tr2)
            | Some ts \<Rightarrow>
                (case Average dp of
                   None \<Rightarrow> Inl (2, tr2)
                 | Some avg \<Rightarrow> Inr ((ts, int64_of_float64 (float64_impl e) avg), tr2))))"
    by (simp add: actualGet_def Let_def resp_def [symmetric] tr2_def log_Fatal_def panic_def
        split: sum.splits list.splits option.splits)
  have "main_loop_body e prefix prev m (buf, tr) =
      (case resp of
         Inl err \<Rightarrow> Inl (1, tr2 @ [Log err])
       | Inr [] \<Rightarrow> Inr (buf, tr2 @ [Log (unavailable mn name)])
       | Inr (dp # dps) \<Rightarrow>
           (case Timestamp dp of
              None \<Rightarrow> Inl (2, tr2)
            | Some ts \<Rightarrow>
                (case Average dp of
                   None \<Rightarrow> Inl (2, tr2)
                 | Some avg \<Rightarrow>
                     if IsZero ts then Inr (buf, tr2 @ [Log (unavailable mn name)])
                     else Inr (buf @ lineOf e prefix (p, ts, avg), tr2))))"
    unfolding body act
    by (simp add: IsZero_def lineOf_def p_fields name_def stype_def
        split: sum.splits list.splits option.splits)
  then show ?thesis
    unfolding Let_def tr2_def resp_def p_def now_def name_def .
qed

lemma main_loop_body_other:
  assumes "MetricName m = Some mn" "\<not> knownKind mn"
  shows "main_loop_body e prefix prev m (buf, tr) =
           (if dimsOK (Dimensions m) then Inr (buf, tr) else Inl (2, tr))"
  using assms
  by (simp add: main_loop_body_def dimLoop_eq main_loop_size_def main_loop_count_def
      knownKind_def panic_def)

lemma main_loop_body_nil:
  assumes "MetricName m = None \<or> \<not> dimsOK (Dimensions m)"
  shows "main_loop_body e prefix prev m (buf, tr) = Inl (2, tr)"
  using assms by (auto simp add: main_loop_body_def dimLoop_eq panic_def)

subsection \<open>Traces\<close>

lemma collectedPoints_append:
  "collectedPoints (xs @ ys) = collectedPoints xs @ collectedPoints ys"
  by (simp add: collectedPoints_def map_filter_def)

lemma queries_append: "queries (xs @ ys) = queries xs @ queries ys"
  by (simp add: queries_def map_filter_def)

lemma collectedPoints_simps:
  "collectedPoints [] = []"
  "collectedPoints (ev # tr) =
     (case collected ev of None \<Rightarrow> collectedPoints tr | Some c \<Rightarrow> c # collectedPoints tr)"
  by (simp_all add: collectedPoints_def map_filter_simps split: option.splits)

lemma queries_simps:
  "queries [] = []"
  "queries (ev # tr) = (case queryOf ev of None \<Rightarrow> queries tr | Some c \<Rightarrow> c # queries tr)"
  by (simp_all add: queries_def map_filter_simps split: option.splits)

lemma queriesOK_append:
  "queriesOK prev b (xs @ ys) = (queriesOK prev b xs \<and> queriesOK prev (last (b # xs)) ys)"
  by (induction xs arbitrary: b) simp_all

subsection \<open>What one turn of the loop adds\<close>

lemma known_descriptor:
  "MetricName m = Some mn \<Longrightarrow> knownKind mn \<Longrightarrow> isKnown m \<and> descriptorOf m = (mn, Dimensions m)"
  by (simp add: isKnown_def descriptorOf_def)

lemma main_loop_body_Inr:
  assumes run: "main_loop_body e prefix prev m (buf, tr) = Inr (buf', tr')"
  shows "\<exists>ev. tr' = tr @ ev \<and>
           buf' = buf @ concat (map (lineOf e prefix) (collectedPoints ev)) \<and>
           filter isNet ev = [] \<and> filter apiError ev = [] \<and>
           queries ev = (if isKnown m then [descriptorOf m] else []) \<and>
           (\<forall>b. queriesOK prev b ev)"
proof (cases "MetricName m = None \<or> \<not> dimsOK (Dimensions m)")
  case True
  then show ?thesis using run main_loop_body_nil [OF True, of e prefix prev buf tr] by simp
next
  case False
  then obtain mn where mn: "MetricName m = Some mn" and ok: "dimsOK (Dimensions m)" by auto
  show ?thesis
  proof (cases "knownKind mn")
    case other: False
    then have "tr' = tr @ []" "buf' = buf" "\<not> isKnown m"
      using run main_loop_body_other [OF mn other, of e prefix prev buf tr] ok mn
      by (simp_all add: isKnown_def)
    then show ?thesis
      by (intro exI [where x = "[]"]) (simp add: collectedPoints_simps queries_simps)
  next
    case kind: True
    define now where "now = Now e tr"
    define p where "p = paramsFor mn now (Dimensions m) prev"
    define resp where "resp = GetMetricStatistics e (tr @ [NowCall now]) p"
    define name where "name = lastValue ''BucketName'' (Dimensions m)"
    note body = main_loop_body_known [OF mn kind ok, of e prefix prev buf tr,
        unfolded Let_def, folded now_def, folded p_def, folded resp_def, folded name_def]
    have win: "isWindow now prev p" unfolding p_def by (rule isWindow_paramsFor)
    have q: "MetricName_in p = mn" "Dimensions_in p = Dimensions m" "descriptorOf m = (mn, Dimensions m)"
      unfolding p_def using known_descriptor [OF mn kind] by (simp_all add: paramsFor_simps kind)
    have known: "isKnown m" using known_descriptor [OF mn kind] by simp
    have qs: "queries (NowCall now # GetMetricStatisticsCall p resp # rest) =
                descriptorOf m # queries rest" for rest
      by (simp add: queries_simps q)
    have qok: "queriesOK prev b [NowCall now, GetMetricStatisticsCall p resp]"
              "queriesOK prev b [NowCall now, GetMetricStatisticsCall p resp, Log s]" for b s
      using win by simp_all
    show ?thesis
    proof (cases resp)
      case (Inl err)
      then show ?thesis using run body by simp
    next
      case (Inr dps)
      show ?thesis
      proof (cases dps)
        case Nil
        with Inr have "tr' = tr @ [NowCall now, GetMetricStatisticsCall p resp, Log (unavailable mn name)]"
          and "buf' = buf" using run body by simp_all
        moreover have "collected (GetMetricStatisticsCall p resp) = None"
          using Inr Nil by simp
        ultimately show ?thesis using known qs qok
          by (intro exI [where x = "[NowCall now, GetMetricStatisticsCall p resp, Log (unavailable mn name)]"])
            (simp add: collectedPoints_simps queries_simps Inr)
      next
        case (Cons dp dps')
        from run body Inr Cons obtain ts avg
          where ts: "Timestamp dp = Some ts" and avg: "Average dp = Some avg"
          by (cases "Timestamp dp"; cases "Average dp") simp_all
        show ?thesis
        proof (cases "IsZero ts")
          case True
          then have "tr' = tr @ [NowCall now, GetMetricStatisticsCall p resp, Log (unavailable mn name)]"
            and "buf' = buf" using run body Inr Cons ts avg by simp_all
          moreover have "collected (GetMetricStatisticsCall p resp) = None"
            using Inr Cons ts avg True by simp
          ultimately show ?thesis using known qs qok
            by (intro exI [where x = "[NowCall now, GetMetricStatisticsCall p resp, Log (unavailable mn name)]"])
              (simp add: collectedPoints_simps queries_simps Inr)
        next
          case False
          then have "tr' = tr @ [NowCall now, GetMetricStatisticsCall p resp]"
            and "buf' = buf @ lineOf e prefix (p, ts, avg)" using run body Inr Cons ts avg by simp_all
          moreover have "collected (GetMetricStatisticsCall p resp) = Some (p, ts, avg)"
            using Inr Cons ts avg False by simp
          ultimately show ?thesis using known qs qok
            by (intro exI [where x = "[NowCall now, GetMetricStatisticsCall p resp]"])
              (simp add: collectedPoints_simps queries_simps Inr)
        qed
      qed
    qed
  qed
qed

lemma main_loop_body_Inl:
  assumes run: "main_loop_body e prefix prev m (buf, tr) = Inl (c, tr')"
  shows "\<exists>ev. tr' = tr @ ev \<and> filter isNet ev = [] \<and> (\<forall>b. queriesOK prev b ev) \<and>
           ((c = 2 \<and> filter apiError ev = []) \<or>
            (c = 1 \<and> (\<exists>ev0 p err. ev = ev0 @ [GetMetricStatisticsCall p (Inl err), Log err] \<and>
                        filter apiError ev0 = [])))"
proof (cases "MetricName m = None \<or> \<not> dimsOK (Dimensions m)")
  case True
  then have "tr' = tr @ []" "c = 2"
    using run main_loop_body_nil [OF True, of e prefix prev buf tr] by simp_all
  then show ?thesis by (intro exI [where x = "[]"]) simp
next
  case False
  then obtain mn where mn: "MetricName m = Some mn" and ok: "dimsOK (Dimensions m)" by auto
  show ?thesis
  proof (cases "knownKind mn")
    case other: False
    then show ?thesis
      using run main_loop_body_other [OF mn other, of e prefix prev buf tr] ok by simp
  next
    case kind: True
    define now where "now = Now e tr"
    define p where "p = paramsFor mn now (Dimensions m) prev"
    define resp where "resp = GetMetricStatistics e (tr @ [NowCall now]) p"
    define name where "name = lastValue ''BucketName'' (Dimensions m)"
    note body = main_loop_body_known [OF mn kind ok, of e prefix prev buf tr,
        unfolded Let_def, folded now_def, folded p_def, folded resp_def, folded name_def]
    have win: "isWindow now prev p" unfolding p_def by (rule isWindow_paramsFor)
    show ?thesis
    proof (cases resp)
      case (Inl err)
      then have tr': "tr' = tr @ [NowCall now, GetMetricStatisticsCall p (Inl err), Log err]"
        and c: "c = 1"
        using run body by simp_all
      have split: "[NowCall now, GetMetricStatisticsCall p (Inl err), Log err] =
          [NowCall now] @ [GetMetricStatisticsCall p (Inl err), Log err]" by simp
      have last: "\<exists>ev0 p' err'. [NowCall now, GetMetricStatisticsCall p (Inl err), Log err] =
          ev0 @ [GetMetricStatisticsCall p' (Inl err'), Log err'] \<and> filter apiError ev0 = []"
        by (rule exI [where x = "[NowCall now]"], rule exI [where x = p], rule exI [where x = err])
          simp
      show ?thesis
      proof (intro exI [where x = "[NowCall now, GetMetricStatisticsCall p (Inl err), Log err]"] conjI)
        show "tr' = tr @ [NowCall now, GetMetricStatisticsCall p (Inl err), Log err]" by (rule tr')
        show "filter isNet [NowCall now, GetMetricStatisticsCall p (Inl err), Log err] = []" by simp
        show "\<forall>b. queriesOK prev b [NowCall now, GetMetricStatisticsCall p (Inl err), Log err]"
          using win by simp
        show "c = 2 \<and> filter apiError [NowCall now, GetMetricStatisticsCall p (Inl err), Log err] = [] \<or>
            c = 1 \<and> (\<exists>ev0 p' err'. [NowCall now, GetMetricStatisticsCall p (Inl err), Log err] =
               ev0 @ [GetMetricStatisticsCall p' (Inl err'), Log err'] \<and> filter apiError ev0 = [])"
          using c last by blast
      qed
    next
      case (Inr dps)
      have two: "tr' = tr @ [NowCall now, GetMetricStatisticsCall p resp] \<and> c = 2"
      proof (cases dps)
        case Nil
        then show ?thesis using run body Inr by simp
      next
        case (Cons dp dps')
        then show ?thesis using run body Inr
          by (cases "Timestamp dp"; cases "Average dp") (simp_all split: if_splits)
      qed
      then show ?thesis using win Inr
        by (intro exI [where x = "[NowCall now, GetMetricStatisticsCall p resp]"]) simp
    qed
  qed
qed

subsection \<open>What the loop adds\<close>

lemma main_loop_Inr:
  "main_loop e prefix prev ms (buf, tr) = Inr (buf', tr') \<Longrightarrow>
     \<exists>ev. tr' = tr @ ev \<and>
       buf' = buf @ concat (map (lineOf e prefix) (collectedPoints ev)) \<and>
       filter isNet ev = [] \<and> filter apiError ev = [] \<and>
       queries ev = map descriptorOf (filter isKnown ms) \<and>
       (\<forall>b. queriesOK prev b ev)"
proof (induction ms arbitrary: buf tr)
  case Nil
  then show ?case
    by (intro exI [where x = "[]"]) (simp add: collectedPoints_simps queries_simps)
next
  case (Cons m ms)
  from Cons.prems obtain buf1 tr1
    where step: "main_loop_body e prefix prev m (buf, tr) = Inr (buf1, tr1)"
      and rest: "main_loop e prefix prev ms (buf1, tr1) = Inr (buf', tr')"
    by (cases "main_loop_body e prefix prev m (buf, tr)") auto
  from main_loop_body_Inr [OF step] obtain ev1
    where 1: "tr1 = tr @ ev1"
      "buf1 = buf @ concat (map (lineOf e prefix) (collectedPoints ev1))"
      "filter isNet ev1 = []" "filter apiError ev1 = []"
      "queries ev1 = (if isKnown m then [descriptorOf m] else [])"
      "\<forall>b. queriesOK prev b ev1"
    by blast
  from Cons.IH [OF rest] obtain ev2
    where 2: "tr' = tr1 @ ev2"
      "buf' = buf1 @ concat (map (lineOf e prefix) (collectedPoints ev2))"
      "filter isNet ev2 = []" "filter apiError ev2 = []"
      "queries ev2 = map descriptorOf (filter isKnown ms)"
      "\<forall>b. queriesOK prev b ev2"
    by blast
  show ?case
  proof (intro exI [where x = "ev1 @ ev2"] conjI)
    show "tr' = tr @ ev1 @ ev2" using 1 2 by simp
    show "buf' = buf @ concat (map (lineOf e prefix) (collectedPoints (ev1 @ ev2)))"
      using 1 2 by (simp add: collectedPoints_append)
    show "filter isNet (ev1 @ ev2) = []" using 1 2 by simp
    show "filter apiError (ev1 @ ev2) = []" using 1 2 by simp
    show "queries (ev1 @ ev2) = map descriptorOf (filter isKnown (m # ms))"
      using 1 2 by (simp add: queries_append)
    show "\<forall>b. queriesOK prev b (ev1 @ ev2)" using 1 2 by (simp add: queriesOK_append)
  qed
qed

lemma main_loop_Inl:
  "main_loop e prefix prev ms (buf, tr) = Inl (c, tr') \<Longrightarrow>
     \<exists>ev. tr' = tr @ ev \<and> filter isNet ev = [] \<and> (\<forall>b. queriesOK prev b ev) \<and>
       ((c = 2 \<and> filter apiError ev = []) \<or>
        (c = 1 \<and> (\<exists>ev0 p err. ev = ev0 @ [GetMetricStatisticsCall p (Inl err), Log err] \<and>
                    filter apiError ev0 = [])))"
proof (induction ms arbitrary: buf tr)
  case Nil
  then show ?case by simp
next
  case (Cons m ms)
  show ?case
  proof (cases "main_loop_body e prefix prev m (buf, tr)")
    case (Inl stop)
    with Cons.prems have "main_loop_body e prefix prev m (buf, tr) = Inl (c, tr')" by simp
    then show ?thesis by (rule main_loop_body_Inl)
  next
    case (Inr st1)
    obtain buf1 tr1 where st1: "st1 = (buf1, tr1)" by (cases st1)
    from Inr st1 have step: "main_loop_body e prefix prev m (buf, tr) = Inr (buf1, tr1)" by simp
    from Cons.prems step have rest: "main_loop e prefix prev ms (buf1, tr1) = Inl (c, tr')" by simp
    from main_loop_body_Inr [OF step] obtain ev1
      where 1: "tr1 = tr @ ev1" "filter isNet ev1 = []" "filter apiError ev1 = []"
        "\<forall>b. queriesOK prev b ev1"
      by blast
    from Cons.IH [OF rest] obtain ev2
      where 2: "tr' = tr1 @ ev2" "filter isNet ev2 = []" "\<forall>b. queriesOK prev b ev2"
        and ends: "(c = 2 \<and> filter apiError ev2 = []) \<or>
          (c = 1 \<and> (\<exists>ev0 p err. ev2 = ev0 @ [GetMetricStatisticsCall p (Inl err), Log err] \<and>
                      filter apiError ev0 = []))"
      by blast
    have ends': "(c = 2 \<and> filter apiError (ev1 @ ev2) = []) \<or>
          (c = 1 \<and> (\<exists>ev0 p err. ev1 @ ev2 = ev0 @ [GetMetricStatisticsCall p (Inl err), Log err] \<and>
                      filter apiError ev0 = []))"
      using ends
    proof
      assume "c = 2 \<and> filter apiError ev2 = []"
      then show ?thesis using 1 by simp
    next
      assume "c = 1 \<and> (\<exists>ev0 p err. ev2 = ev0 @ [GetMetricStatisticsCall p (Inl err), Log err] \<and>
                      filter apiError ev0 = [])"
      then obtain ev0 p err where c: "c = 1"
        and ev2: "ev2 = ev0 @ [GetMetricStatisticsCall p (Inl err), Log err]"
        and ok: "filter apiError ev0 = []" by blast
      have "ev1 @ ev2 = (ev1 @ ev0) @ [GetMetricStatisticsCall p (Inl err), Log err] \<and>
          filter apiError (ev1 @ ev0) = []"
        using ev2 ok 1 by simp
      then show ?thesis using c by blast
    qed
    show ?thesis
    proof (intro exI [where x = "ev1 @ ev2"] conjI)
      show "tr' = tr @ ev1 @ ev2" using 1 2 by simp
      show "filter isNet (ev1 @ ev2) = []" using 1 2 by simp
      show "\<forall>b. queriesOK prev b (ev1 @ ev2)" using 1 2 by (simp add: queriesOK_append)
      show "(c = 2 \<and> filter apiError (ev1 @ ev2) = []) \<or>
          (c = 1 \<and> (\<exists>ev0 p err. ev1 @ ev2 = ev0 @ [GetMetricStatisticsCall p (Inl err), Log err] \<and>
                      filter apiError ev0 = []))"
        by (rule ends')
    qed
  qed
qed

subsection \<open>A whole run\<close>

lemma main_unfold:
  "main e =
     (if \<not> envOK e then
        (1, [Log ''Please set the environment variables AWS_ACCESS_KEY_ID, AWS_SECRET_ACCESS_KEY and AWS_REGION''])
      else
        case ResolveTCPAddr e (addrOf e) of
          Inl err \<Rightarrow> (1, [Log err])
        | Inr tcpAddr \<Rightarrow>
            (case ListMetrics e ''AWS/S3'' of
               Inl err \<Rightarrow> (1, [ListMetricsCall ''AWS/S3'' (Inl err), Log err])
             | Inr metrics \<Rightarrow>
                 (case main_loop e (prefixOf e) (opt_1 e) metrics
                         ([], [ListMetricsCall ''AWS/S3'' (Inr metrics)]) of
                    Inl stop \<Rightarrow> stop
                  | Inr (buf, tr) \<Rightarrow> main_send e tcpAddr buf tr)))"
proof (cases "envOK e")
  case False
  then show ?thesis by (auto simp add: main_def envOK_def)
next
  case True
  then have env: "\<not> (length (accessKey e) = 0 \<or> length (secretKey e) = 0 \<or> length (awsRegion e) = 0)"
    by (simp add: envOK_def)
  show ?thesis
  proof (cases "ResolveTCPAddr e (addrOf e)")
    case (Inl err)
    then show ?thesis
      using True unfolding main_def Let_def if_not_P [OF env] addrOf_def [symmetric]
      by simp
  next
    case (Inr a)
    note addr = this
    show ?thesis
    proof (cases "ListMetrics e ''AWS/S3''")
      case (Inl err)
      then show ?thesis
        using True addr unfolding main_def Let_def if_not_P [OF env] addrOf_def [symmetric]
        by simp
    next
      case (Inr ms)
      then show ?thesis
        using True addr
        unfolding main_def Let_def if_not_P [OF env] addrOf_def [symmetric] prefixOf_def [symmetric]
        by simp
    qed
  qed
qed

lemma main_send_trace:
  "\<exists>ev. snd (main_send e a buf tr) = tr @ ev \<and> filter isCall ev = [] \<and>
     (\<forall>b. queriesOK prev b ev) \<and> collectedPoints ev = [] \<and> (buf = [] \<longrightarrow> filter isNet ev = [])"
proof (cases "buf = []")
  case True
  then show ?thesis
    by (intro exI [where x = "[Log ''No metrics were found for today.'',
          Log (''Try running it later in the day or run with '' @ [CHR 0x22] @ ''-1'' @ [CHR 0x22] @ '' flag.'')]"])
      (simp add: main_send_def collectedPoints_simps)
next
  case False
  define tr1 where "tr1 = tr @ [Print buf,
      Print (''sending to graphite server at '' @ a @ '':'' @ [CHR 0x0A])]"
  show ?thesis
  proof (cases "DialTCP e tr1 a")
    case (Inl err)
    then show ?thesis using False unfolding tr1_def
      by (intro exI [where x = "[Print buf,
            Print (''sending to graphite server at '' @ a @ '':'' @ [CHR 0x0A]),
            DialTCPCall a (Inl err), Log err]"])
        (simp add: main_send_def Let_def collectedPoints_simps)
  next
    case (Inr u)
    then show ?thesis using False unfolding tr1_def
      by (intro exI [where x = "[Print buf,
            Print (''sending to graphite server at '' @ a @ '':'' @ [CHR 0x0A]),
            DialTCPCall a (Inr u), ConnWrite buf, ConnClose, Print (''done.'' @ [CHR 0x0A])]"])
        (simp add: main_send_def Let_def collectedPoints_simps)
  qed
qed

lemma main_queriesOK: "queriesOK (opt_1 e) b (snd (main e))"
proof (cases "envOK e")
  case False
  then show ?thesis by (simp add: main_unfold)
next
  case env: True
  show ?thesis
  proof (cases "ResolveTCPAddr e (addrOf e)")
    case (Inl err)
    then show ?thesis using env by (simp add: main_unfold)
  next
    case (Inr a)
    note addr = this
    show ?thesis
    proof (cases "ListMetrics e ''AWS/S3''")
      case (Inl err)
      then show ?thesis using env addr by (simp add: main_unfold)
    next
      case (Inr ms)
      note listing = this
      define tr0 where "tr0 = [ListMetricsCall ''AWS/S3'' (Inr ms :: string + Metric list)]"
      show ?thesis
      proof (cases "main_loop e (prefixOf e) (opt_1 e) ms ([], tr0)")
        case (Inl stop)
        obtain c tr' where stop: "stop = (c, tr')" by (cases stop)
        from main_loop_Inl [OF Inl [unfolded stop]] obtain ev
          where "tr' = tr0 @ ev" "\<forall>b. queriesOK (opt_1 e) b ev" by blast
        then have "queriesOK (opt_1 e) b tr'" by (simp add: tr0_def)
        then show ?thesis using env addr listing Inl stop by (simp add: main_unfold tr0_def)
      next
        case (Inr st)
        obtain buf tr' where st: "st = (buf, tr')" by (cases st)
        from main_loop_Inr [OF Inr [unfolded st]] obtain ev
          where "tr' = tr0 @ ev" "\<forall>b. queriesOK (opt_1 e) b ev" by blast
        then have 1: "queriesOK (opt_1 e) b tr'" by (simp add: tr0_def)
        from main_send_trace [of e a buf tr' "opt_1 e"] obtain ev'
          where 2: "snd (main_send e a buf tr') = tr' @ ev'" "\<forall>b. queriesOK (opt_1 e) b ev'"
          by blast
        have "queriesOK (opt_1 e) b (snd (main_send e a buf tr'))"
          using 1 2 by (simp add: queriesOK_append)
        then show ?thesis using env addr listing Inr st by (simp add: main_unfold tr0_def)
      qed
    qed
  qed
qed

lemma params_same_day:
  assumes "utcDay now' = utcDay now"
  shows "getBucketSize_params now' dims prev = getBucketSize_params now dims prev"
    and "getBucketObjectCount_params now' dims prev = getBucketObjectCount_params now dims prev"
  using assms
  by (simp_all add: getBucketSize_params_eq getBucketObjectCount_params_eq targetDay_def)

lemma isWindow_get_params:
  "isWindow now prev (getBucketSize_params now dims prev)"
  "isWindow now prev (getBucketObjectCount_params now dims prev)"
  by (simp_all add: isWindow_def getBucketSize_params_eq getBucketObjectCount_params_eq)

lemma utcDay_examples:
  "utcDay atNoon = 16556"
  "utcDay (time_Date 2015 5 1 0 0 30 0) = 16556"
  "civil_from_days 16555 = (2015, 4, 30)"
    apply (simp add: atNoon_def time_Date_examples utcDay_def Unix_def Second_def)
   apply (simp add: time_Date_examples utcDay_def Unix_def Second_def)
  apply code_simp
  done

subsection \<open>Lines\<close>

lemma endsWithOneNewline_append:
  assumes "s \<noteq> []" "last s \<noteq> CHR 0x0A"
  shows "endsWithOneNewline (xs @ s @ [CHR 0x0A])"
proof -
  from assms(1) obtain ys y where s: "s = ys @ [y]" by (cases s rule: rev_cases) auto
  with assms(2) have "y \<noteq> CHR 0x0A" by simp
  then show ?thesis by (simp add: endsWithOneNewline_def s)
qed

lemma lineFor_ends: "endsWithOneNewline (lineFor prefix mn name stype v t)"
proof -
  have 1: "sizeLine prefix name stype v t =
      (prefix @ name @ ''.'' @ stype @ ''.size '' @ showInt (sint v) @ '' '') @ showInt (Unix t) @ [CHR 0x0A]"
    by (simp add: sizeLine_def)
  have 2: "countLine prefix name v t =
      (prefix @ name @ ''.objcount '' @ showInt (sint v) @ '' '') @ showInt (Unix t) @ [CHR 0x0A]"
    by (simp add: countLine_def)
  have ends: "endsWithOneNewline (xs @ showInt (Unix t) @ [CHR 0x0A])" for xs
    using showInt_last [of "Unix t"] by (intro endsWithOneNewline_append) simp_all
  show ?thesis
  proof (cases "mn = ''BucketSizeBytes''")
    case True
    then have "lineFor prefix mn name stype v t = sizeLine prefix name stype v t"
      by (simp add: lineFor_def)
    then show ?thesis by (simp only: 1 ends)
  next
    case False
    then have "lineFor prefix mn name stype v t = countLine prefix name v t"
      by (simp add: lineFor_def)
    then show ?thesis by (simp only: 2 ends)
  qed
qed

lemma lineOf_ends: "endsWithOneNewline (lineOf e prefix c)"
  by (cases c) (simp add: lineOf_def lineFor_ends)

lemma lineOf_nonempty: "lineOf e prefix c \<noteq> []"
  using lineOf_ends [of e prefix c] by (auto simp add: endsWithOneNewline_def)

lemma concat_lines_empty:
  "concat (map (lineOf e prefix) cs) = [] \<longleftrightarrow> cs = []"
  by (cases cs) (simp_all add: lineOf_nonempty)

subsection \<open>Order\<close>






subsection \<open>The end of a run\<close>

lemma apiError_isCall: "apiError ev \<Longrightarrow> isCall ev"
  by (cases ev rule: apiError.cases) simp_all

lemma filter_apiError_empty: "filter isCall evs = [] \<Longrightarrow> filter apiError evs = []"
  by (auto simp add: filter_empty_conv dest: apiError_isCall)

lemma main_completed:
  assumes env: "envOK e" and addr: "ResolveTCPAddr e (addrOf e) = Inr a"
    and listing: "ListMetrics e ''AWS/S3'' = Inr ms"
    and loop: "main_loop e (prefixOf e) (opt_1 e) ms ([], [ListMetricsCall ''AWS/S3'' (Inr ms)]) =
                 Inr (buf, tr)"
  shows "main e = main_send e a buf tr"
    and "buf = concat (map (lineOf e (prefixOf e)) (collectedPoints tr))"
    and "filter isNet tr = []"
    and "filter apiError tr = []"
proof -
  show "main e = main_send e a buf tr" using env addr listing loop by (simp add: main_unfold)
  from main_loop_Inr [OF loop] obtain ev
    where ev: "tr = [ListMetricsCall ''AWS/S3'' (Inr ms)] @ ev"
      "buf = [] @ concat (map (lineOf e (prefixOf e)) (collectedPoints ev))"
      "filter isNet ev = []" "filter apiError ev = []"
    by blast
  then show "buf = concat (map (lineOf e (prefixOf e)) (collectedPoints tr))"
    by (simp add: collectedPoints_simps)
  show "filter isNet tr = []" using ev by simp
  show "filter apiError tr = []" using ev by simp
qed

lemma main_send_empty:
  \<open>main_send e a [] tr =
     (0, tr @ [Log ''No metrics were found for today.'',
               Log ''Try running it later in the day or run with "-1" flag.''])\<close>
  by (simp add: main_send_def)

lemma main_send_lines:
  assumes "buf \<noteq> []"
  shows "main_send e a buf tr =
     (case DialTCP e (tr @ [Print buf, Print (''sending to graphite server at '' @ a @ '':'' @ [CHR 0x0A])]) a of
        Inl err \<Rightarrow>
          (1, tr @ [Print buf, Print (''sending to graphite server at '' @ a @ '':'' @ [CHR 0x0A]),
                    DialTCPCall a (Inl err), Log err])
      | Inr c \<Rightarrow>
          (0, tr @ [Print buf, Print (''sending to graphite server at '' @ a @ '':'' @ [CHR 0x0A]),
                    DialTCPCall a (Inr c), ConnWrite buf, ConnClose, Print (''done.'' @ [CHR 0x0A])]))"
  using assms by (simp add: main_send_def Let_def split: sum.splits)

lemma main_net_needs_lines:
  assumes "collectedPoints (snd (main e)) = []"
  shows "filter isNet (snd (main e)) = []"
proof (cases "envOK e")
  case False
  then show ?thesis by (simp add: main_unfold)
next
  case env: True
  show ?thesis
  proof (cases "ResolveTCPAddr e (addrOf e)")
    case (Inl err)
    then show ?thesis using env by (simp add: main_unfold)
  next
    case (Inr a)
    note addr = this
    show ?thesis
    proof (cases "ListMetrics e ''AWS/S3''")
      case (Inl err)
      then show ?thesis using env addr by (simp add: main_unfold)
    next
      case (Inr ms)
      note listing = this
      define tr0 where "tr0 = [ListMetricsCall ''AWS/S3'' (Inr ms :: string + Metric list)]"
      show ?thesis
      proof (cases "main_loop e (prefixOf e) (opt_1 e) ms ([], tr0)")
        case (Inl stop)
        obtain c tr' where stop: "stop = (c, tr')" by (cases stop)
        from main_loop_Inl [OF Inl [unfolded stop]] obtain ev
          where "tr' = tr0 @ ev" "filter isNet ev = []" by blast
        then have "filter isNet tr' = []" by (simp add: tr0_def)
        then show ?thesis using env addr listing Inl stop by (simp add: main_unfold tr0_def)
      next
        case (Inr st)
        obtain buf tr' where st: "st = (buf, tr')" by (cases st)
        note loop = Inr [unfolded st tr0_def]
        note fin = main_completed [OF env addr listing loop]
        from main_send_trace [of e a buf tr' "opt_1 e"] obtain ev'
          where ev': "snd (main_send e a buf tr') = tr' @ ev'" "buf = [] \<longrightarrow> filter isNet ev' = []"
          by blast
        from assms fin(1) ev'(1) have "collectedPoints tr' = []"
          by (simp add: collectedPoints_append)
        then have "buf = []" using fin(2) by simp
        then show ?thesis using fin(1,3) ev' by simp
      qed
    qed
  qed
qed

lemma main_api_error:
  assumes run: "main e = (c, tr)" and err: "filter apiError tr \<noteq> []"
  shows "c = 1 \<and> filter isNet tr = [] \<and>
         (\<exists>tr0 ev err. tr = tr0 @ [ev, Log err] \<and> apiError ev \<and> filter apiError tr0 = [])"
proof (cases "envOK e")
  case False
  then show ?thesis using run err by (auto simp add: main_unfold)
next
  case env: True
  show ?thesis
  proof (cases "ResolveTCPAddr e (addrOf e)")
    case (Inl msg)
    then show ?thesis using env run err by (auto simp add: main_unfold)
  next
    case (Inr a)
    note addr = this
    show ?thesis
    proof (cases "ListMetrics e ''AWS/S3''")
      case (Inl msg)
      then have c: "c = 1" and tr: "tr = [] @ [ListMetricsCall ''AWS/S3'' (Inl msg), Log msg]"
        using env addr run by (simp_all add: main_unfold)
      have "\<exists>tr0 ev err. tr = tr0 @ [ev, Log err] \<and> apiError ev \<and> filter apiError tr0 = []"
        by (rule exI [where x = "[]"], rule exI [where x = "ListMetricsCall ''AWS/S3'' (Inl msg)"],
            rule exI [where x = msg]) (simp add: tr)
      then show ?thesis using c tr by simp
    next
      case (Inr ms)
      note listing = this
      define tr0 where "tr0 = [ListMetricsCall ''AWS/S3'' (Inr ms :: string + Metric list)]"
      show ?thesis
      proof (cases "main_loop e (prefixOf e) (opt_1 e) ms ([], tr0)")
        case (Inl stop)
        then have loop: "main_loop e (prefixOf e) (opt_1 e) ms ([], tr0) = Inl (c, tr)"
          using env addr listing run by (simp add: main_unfold tr0_def)
        from main_loop_Inl [OF loop] obtain ev
          where ev: "tr = tr0 @ ev" "filter isNet ev = []"
            and ends: "(c = 2 \<and> filter apiError ev = []) \<or>
              (c = 1 \<and> (\<exists>ev0 p err. ev = ev0 @ [GetMetricStatisticsCall p (Inl err), Log err] \<and>
                          filter apiError ev0 = []))"
          by blast
        from ends err ev(1) obtain ev0 p msg where c: "c = 1"
          and ev0: "ev = ev0 @ [GetMetricStatisticsCall p (Inl msg), Log msg]"
            "filter apiError ev0 = []"
          by (auto simp add: tr0_def)
        have "\<exists>tr1 ev' err. tr = tr1 @ [ev', Log err] \<and> apiError ev' \<and> filter apiError tr1 = []"
          by (rule exI [where x = "tr0 @ ev0"],
              rule exI [where x = "GetMetricStatisticsCall p (Inl msg)"], rule exI [where x = msg])
            (simp add: ev ev0 tr0_def)
        then show ?thesis using c ev by (simp add: tr0_def)
      next
        case (Inr st)
        obtain buf tr' where st: "st = (buf, tr')" by (cases st)
        note loop = Inr [unfolded st tr0_def]
        note fin = main_completed [OF env addr listing loop]
        from main_send_trace [of e a buf tr' "opt_1 e"] obtain ev'
          where ev': "snd (main_send e a buf tr') = tr' @ ev'" "filter isCall ev' = []"
          by blast
        have "filter apiError tr = []"
          using run fin(1,4) ev' filter_apiError_empty [OF ev'(2)]
          by (metis filter_append self_append_conv snd_conv)
        with err show ?thesis by simp
      qed
    qed
  qed
qed

subsection \<open>The example world\<close>

lemma world_simps:
  "envOK (world l s d)"
  "prefixOf (world l s d) = ''s3.us-east-1.''"
  "addrOf (world l s d) = ''127.0.0.1:2003''"
  "opt_1 (world l s d) = False"
  "ResolveTCPAddr (world l s d) a = Inr a"
  "ListMetrics (world l s d) ns = l"
  "Now (world l s d) tr = atNoon"
  "GetMetricStatistics (world l s d) tr p = s"
  "DialTCP (world l s d) tr a = d"
  "float64_impl (world l s d) f = - 9223372036854775808"
  by (simp_all add: world_def envOK_def prefixOf_def addrOf_def)

lemma logs_simps:
  "MetricName logsSize = Some ''BucketSizeBytes''"
  "Dimensions logsSize = logsDims"
  "MetricName logsCount = Some ''NumberOfObjects''"
  "Dimensions logsCount = [dim ''BucketName'' ''logs'']"
  "dimsOK logsDims"
  "dimsOK [dim ''BucketName'' ''logs'']"
  "dimsOK [dim ''StorageType'' ''StandardStorage'']"
  "lastValue ''BucketName'' logsDims = ''logs''"
  "lastValue ''StorageType'' logsDims = ''StandardStorage''"
  "lastValue ''BucketName'' [dim ''BucketName'' ''logs''] = ''logs''"
  "lastValue ''StorageType'' [dim ''BucketName'' ''logs''] = []"
  "lastValue ''BucketName'' [dim ''StorageType'' ''StandardStorage''] = []"
  "lastValue ''StorageType'' [dim ''StorageType'' ''StandardStorage''] = ''StandardStorage''"
  by (simp_all add: logsSize_def logsCount_def logsDims_def dim_def dimsOK_def dimOK_def
      lastValue_def)

lemma ToLower_examples:
  "ToLower e ''StandardStorage'' = ''standardstorage''"
  "ToLower e [] = []"
  by (simp_all add: ToLower_def isASCII_def lowerChar_def)

lemma point_simps:
  "Timestamp (point ts q) = Some ts"
  "Average (point ts q) = Some (Finite q)"
  "logsPoint = point (1430438430 * Second) (8483879823553331 / 68719476736)"
  by (simp_all add: point_def logsPoint_def time_Date_examples)

lemma number_examples:
  "truncRat (8483879823553331 / 68719476736) = 123456"
  "truncRat 42 = 42"
  "truncRat 0 = 0"
  "truncRat 5 = 5"
  "truncRat (- (7 / 2)) = - 3"
  "fitsInt64 123456"
  "fitsInt64 42"
  "fitsInt64 0"
  "fitsInt64 5"
  "\<not> fitsInt64 1000000000000000000000000000000"
  "truncRat 1000000000000000000000000000000 = 1000000000000000000000000000000"
  "showInt 123456 = ''123456''"
  "showInt 42 = ''42''"
  "showInt 0 = ''0''"
  "showInt 1430438430 = ''1430438430''"
  "showInt (- 9223372036854775808) = ''-9223372036854775808''"
  "Unix (1430438430 * Second) = 1430438430"
  "\<not> IsZero (1430438430 * Second)"
  "IsZero zeroTime"
  by (simp_all add: truncRat_def floor_rat_numeral_div fitsInt64_def showInt_def showNat.simps
      digitChar_def Unix_def Second_def IsZero_def zeroTime_def)

lemma truncRat_towards_zero:
  "0 \<le> q \<Longrightarrow> 0 \<le> truncRat q \<and> of_int (truncRat q) \<le> q \<and> q < of_int (truncRat q) + 1"
  "q \<le> 0 \<Longrightarrow> truncRat q \<le> 0 \<and> q \<le> of_int (truncRat q) \<and> of_int (truncRat q) - 1 < q"
proof -
  show "0 \<le> q \<Longrightarrow> 0 \<le> truncRat q \<and> of_int (truncRat q) \<le> q \<and> q < of_int (truncRat q) + 1"
    by (simp add: truncRat_def) linarith
  show "q \<le> 0 \<Longrightarrow> truncRat q \<le> 0 \<and> q \<le> of_int (truncRat q) \<and> of_int (truncRat q) - 1 < q"
    by (cases "q = 0") (simp_all add: truncRat_def, linarith)
qed

lemma main_loop_one:
  "main_loop e prefix prev [m] st = main_loop_body e prefix prev m st"
  by (simp split: sum.splits)

lemma dim_simps: "Name (dim n v) = Some n" "Value (dim n v) = Some v"
  by (simp_all add: dim_def)

subsection \<open>Runs of the example world\<close>

lemma world_main:
  "main (world (Inr ms) s d) =
     (case main_loop (world (Inr ms) s d) ''s3.us-east-1.'' False ms
             ([], [ListMetricsCall ''AWS/S3'' (Inr ms)]) of
        Inl stop \<Rightarrow> stop
      | Inr (buf, tr) \<Rightarrow> main_send (world (Inr ms) s d) ''127.0.0.1:2003'' buf tr)"
  by (simp add: main_unfold world_simps)

lemma world_turn:
  assumes "MetricName m = Some mn" "knownKind mn" "dimsOK (Dimensions m)"
  shows "main_loop_body (world l s d) prefix prev m (buf, tr) =
     (case s of
        Inl err \<Rightarrow>
          Inl (1, tr @ [NowCall atNoon,
                        GetMetricStatisticsCall (paramsFor mn atNoon (Dimensions m) prev) s, Log err])
      | Inr [] \<Rightarrow>
          Inr (buf, tr @ [NowCall atNoon,
                          GetMetricStatisticsCall (paramsFor mn atNoon (Dimensions m) prev) s,
                          Log (unavailable mn (lastValue ''BucketName'' (Dimensions m)))])
      | Inr (dp # dps) \<Rightarrow>
          (case Timestamp dp of
             None \<Rightarrow>
               Inl (2, tr @ [NowCall atNoon,
                             GetMetricStatisticsCall (paramsFor mn atNoon (Dimensions m) prev) s])
           | Some ts \<Rightarrow>
               (case Average dp of
                  None \<Rightarrow>
                    Inl (2, tr @ [NowCall atNoon,
                                  GetMetricStatisticsCall (paramsFor mn atNoon (Dimensions m) prev) s])
                | Some avg \<Rightarrow>
                    if IsZero ts then
                      Inr (buf, tr @ [NowCall atNoon,
                                      GetMetricStatisticsCall (paramsFor mn atNoon (Dimensions m) prev) s,
                                      Log (unavailable mn (lastValue ''BucketName'' (Dimensions m)))])
                    else
                      Inr (buf @ lineOf (world l s d) prefix
                                   (paramsFor mn atNoon (Dimensions m) prev, ts, avg),
                           tr @ [NowCall atNoon,
                                 GetMetricStatisticsCall (paramsFor mn atNoon (Dimensions m) prev) s]))))"
  unfolding main_loop_body_known [OF assms] Let_def world_simps
  by (simp split: sum.splits list.splits option.splits)

lemma world_lines:
  "lineOf (world l s d) ''s3.us-east-1.''
     (paramsFor ''BucketSizeBytes'' atNoon logsDims prev, 1430438430 * Second,
      Finite (8483879823553331 / 68719476736)) =
   ''s3.us-east-1.logs.standardstorage.size 123456 1430438430\<newline>''"
  "lineOf (world l s d) ''s3.us-east-1.''
     (paramsFor ''NumberOfObjects'' atNoon [dim ''BucketName'' ''logs''] prev, 1430438430 * Second,
      Finite (8483879823553331 / 68719476736)) =
   ''s3.us-east-1.logs.objcount 123456 1430438430\<newline>''"
  by (simp_all add: lineOf_def lineFor_def sizeLine_def countLine_def paramsFor_simps knownKind_def
      logs_simps ToLower_examples int64_of_float64_def number_examples world_simps)

lemma kinds: "knownKind ''BucketSizeBytes''" "knownKind ''NumberOfObjects''"
  "\<not> knownKind ''AllRequests''"
  by (simp_all add: knownKind_def)

lemma world_loop_size:
  "main_loop (world l (Inr [logsPoint]) d) ''s3.us-east-1.'' False [logsSize] ([], tr) =
     Inr (''s3.us-east-1.logs.standardstorage.size 123456 1430438430\<newline>'',
          tr @ [NowCall atNoon,
                GetMetricStatisticsCall (getBucketSize_params atNoon logsDims False) (Inr [logsPoint])])"
  unfolding main_loop_one
  by (simp add: world_turn [of logsSize "''BucketSizeBytes''"] logs_simps kinds point_simps
      number_examples world_lines)
    (simp add: paramsFor_def)

lemma world_loop_empty:
  "main_loop (world l (Inr []) d) ''s3.us-east-1.'' False [logsSize] ([], tr) =
     Inr ([],
          tr @ [NowCall atNoon,
                GetMetricStatisticsCall (getBucketSize_params atNoon logsDims False) (Inr []),
                Log ''bucket size not available for bucket logs''])"
  unfolding main_loop_one
  by (simp add: world_turn [of logsSize "''BucketSizeBytes''"] logs_simps kinds unavailable_def
      paramsFor_def)

lemma world_loop_error:
  "main_loop (world l (Inl ''Throttling'') d) ''s3.us-east-1.'' False [logsSize, logsCount] ([], tr) =
     Inl (1,
          tr @ [NowCall atNoon,
                GetMetricStatisticsCall (getBucketSize_params atNoon logsDims False) (Inl ''Throttling''),
                Log ''Throttling''])"
  by (simp add: world_turn [of logsSize "''BucketSizeBytes''"] logs_simps kinds paramsFor_def)


subsection \<open>The claims\<close>

text \<open>
  Claim C1, as amended. For a metric of kind \<^verbatim>\<open>BucketSizeBytes\<close> or
  \<^verbatim>\<open>NumberOfObjects\<close> whose dimensions can be read, when the answer of the
  statistics service has a first datapoint with a timestamp and an average: if the
  timestamp is not the zero time, and the average is finite with an integer part that
  fits in 64 bits, the body of the loop appends exactly one line to the buffer: prefix,
  bucket, a dot, the storage type as \<^verbatim>\<open>strings.ToLower\<close> gives it,
  \<^verbatim>\<open>.size\<close>, the average truncated towards zero and the Unix seconds of the
  timestamp, each after a space, and a newline; for the count, prefix, bucket,
  \<^verbatim>\<open>.objcount\<close> and the same two numbers. If the timestamp is the zero time, the
  body appends no line and logs that the size, or the count, is not available. (Claim C1
  as stated, for every answer with at least one datapoint, fails: see the counterexample
  below.)
\<close>

theorem C1_one_line_per_datapoint:
  assumes "MetricName m = Some mn"
    and "mn = ''BucketSizeBytes'' \<or> mn = ''NumberOfObjects''"
    and "dimsOK (Dimensions m)"
    and "GetMetricStatistics e (tr @ [NowCall (Now e tr)])
           (paramsFor mn (Now e tr) (Dimensions m) prev) = Inr (dp # dps)"
    and "Timestamp dp = Some ts" and "Average dp = Some a"
  shows
    "(\<not> IsZero ts \<longrightarrow>
        (\<forall>avg. a = Finite avg \<longrightarrow> fitsInt64 (truncRat avg) \<longrightarrow>
           main_loop_body e prefix prev m (buf, tr) =
             Inr (buf @
                  (if mn = ''BucketSizeBytes'' then
                     prefix @ lastValue ''BucketName'' (Dimensions m) @ ''.'' @
                     ToLower e (lastValue ''StorageType'' (Dimensions m)) @ ''.size '' @
                     showInt (truncRat avg) @ '' '' @ showInt (Unix ts) @ [CHR 0x0A]
                   else
                     prefix @ lastValue ''BucketName'' (Dimensions m) @ ''.objcount '' @
                     showInt (truncRat avg) @ '' '' @ showInt (Unix ts) @ [CHR 0x0A]),
                  tr @ [NowCall (Now e tr),
                        GetMetricStatisticsCall (paramsFor mn (Now e tr) (Dimensions m) prev)
                          (Inr (dp # dps))])))
     \<and>
     (IsZero ts \<longrightarrow>
        main_loop_body e prefix prev m (buf, tr) =
          Inr (buf,
               tr @ [NowCall (Now e tr),
                     GetMetricStatisticsCall (paramsFor mn (Now e tr) (Dimensions m) prev)
                       (Inr (dp # dps)),
                     Log ((if mn = ''BucketSizeBytes'' then ''bucket size not available for bucket ''
                           else ''object count not available for bucket '') @
                          lastValue ''BucketName'' (Dimensions m))]))"
proof -
  have kind: "knownKind mn" using assms(2) by (simp add: knownKind_def)
  have name: "MetricName_in (paramsFor mn (Now e tr) (Dimensions m) prev) = mn"
    using kind by (simp add: paramsFor_simps)
  show ?thesis
    unfolding main_loop_body_known [OF assms(1) kind assms(3)] Let_def
    using assms(4-6) name
    by (simp add: lineOf_def lineFor_def sizeLine_def countLine_def paramsFor_simps
        int64_of_float64_Finite unavailable_def)
qed

theorem C1_one_line_per_datapoint_witness:
  "main_loop_body (world (Inr [logsSize]) (Inr [logsPoint]) (Inr ())) ''s3.us-east-1.'' False
     logsSize ([], [])
   = Inr (''s3.us-east-1.logs.standardstorage.size 123456 1430438430\<newline>'',
          [NowCall atNoon,
           GetMetricStatisticsCall (getBucketSize_params atNoon logsDims False) (Inr [logsPoint])])
   \<and>
   main_loop_body (world (Inr [logsCount]) (Inr [point (1430438430 * Second) 42]) (Inr ()))
     ''s3.us-east-1.'' False logsCount ([], [])
   = Inr (''s3.us-east-1.logs.objcount 42 1430438430\<newline>'',
          [NowCall atNoon,
           GetMetricStatisticsCall (getBucketObjectCount_params atNoon [dim ''BucketName'' ''logs''] False)
             (Inr [point (1430438430 * Second) 42])])
   \<and>
   main_loop_body (world (Inr [logsCount]) (Inr [point zeroTime 42]) (Inr ()))
     ''s3.us-east-1.'' False logsCount (''kept'', [])
   = Inr (''kept'',
          [NowCall atNoon,
           GetMetricStatisticsCall (getBucketObjectCount_params atNoon [dim ''BucketName'' ''logs''] False)
             (Inr [point zeroTime 42]),
           Log ''object count not available for bucket logs''])"
proof -
  define W1 where "W1 = world (Inr [logsSize]) (Inr [logsPoint]) (Inr ())"
  define W2 where "W2 = world (Inr [logsCount]) (Inr [point (1430438430 * Second) 42]) (Inr ())"
  define W3 where "W3 = world (Inr [logsCount]) (Inr [point zeroTime 42]) (Inr ())"
  have kinds: "''BucketSizeBytes'' = ''BucketSizeBytes'' \<or> ''BucketSizeBytes'' = ''NumberOfObjects''"
    "''NumberOfObjects'' = ''BucketSizeBytes'' \<or> ''NumberOfObjects'' = ''NumberOfObjects''"
    by simp_all
  have ok: "dimsOK (Dimensions logsSize)" "dimsOK (Dimensions logsCount)"
    by (simp_all add: logs_simps)
  have r1: "GetMetricStatistics W1 ([] @ [NowCall (Now W1 [])])
      (paramsFor ''BucketSizeBytes'' (Now W1 []) (Dimensions logsSize) False) = Inr (logsPoint # [])"
    by (simp add: W1_def world_simps)
  have r2: "GetMetricStatistics W2 ([] @ [NowCall (Now W2 [])])
      (paramsFor ''NumberOfObjects'' (Now W2 []) (Dimensions logsCount) False) =
      Inr (point (1430438430 * Second) 42 # [])"
    by (simp add: W2_def world_simps)
  have r3: "GetMetricStatistics W3 ([] @ [NowCall (Now W3 [])])
      (paramsFor ''NumberOfObjects'' (Now W3 []) (Dimensions logsCount) False) =
      Inr (point zeroTime 42 # [])"
    by (simp add: W3_def world_simps)
  have p1: "Timestamp logsPoint = Some (1430438430 * Second)"
    "Average logsPoint = Some (Finite (8483879823553331 / 68719476736))"
    by (simp_all add: point_simps)
  note c1 = C1_one_line_per_datapoint [OF logs_simps(1) kinds(1) ok(1) r1 p1,
      of "''s3.us-east-1.''" "[]", THEN conjunct1, rule_format,
      OF number_examples(18) refl]
  note c2 = C1_one_line_per_datapoint [OF logs_simps(3) kinds(2) ok(2) r2 point_simps(1,2),
      of "''s3.us-east-1.''" "[]", THEN conjunct1, rule_format,
      OF number_examples(18) refl]
  note c3 = C1_one_line_per_datapoint [OF logs_simps(3) kinds(2) ok(2) r3 point_simps(1,2),
      of "''s3.us-east-1.''" "''kept''", THEN conjunct2, rule_format,
      OF number_examples(19)]
  show ?thesis
    using c1 c2 c3
    by (simp add: W1_def W2_def W3_def world_simps logs_simps number_examples ToLower_examples
        paramsFor_def)
qed

text \<open>
  Against claim C1 as stated: an answer with one datapoint, stamped with the zero time
  (0001-01-01T00:00:00Z, the value \<^verbatim>\<open>actualGet\<close> returns for no datapoint), gives
  no line but the message that the size is not available; and an average of \<open>10^30\<close>,
  which no 64-bit integer holds, is not printed as its integer part.
\<close>

theorem C1_counterexample:
  "main_loop_body (world (Inr [logsSize]) (Inr [point zeroTime 5]) (Inr ())) ''s3.us-east-1.'' False
     logsSize ([], [])
   = Inr ([],
          [NowCall atNoon,
           GetMetricStatisticsCall (getBucketSize_params atNoon logsDims False)
             (Inr [point zeroTime 5]),
           Log ''bucket size not available for bucket logs''])
   \<and>
   main_loop_body
     (world (Inr [logsSize])
        (Inr [point (1430438430 * Second) 1000000000000000000000000000000]) (Inr ()))
     ''s3.us-east-1.'' False logsSize ([], [])
   = Inr (''s3.us-east-1.logs.standardstorage.size -9223372036854775808 1430438430\<newline>'',
          [NowCall atNoon,
           GetMetricStatisticsCall (getBucketSize_params atNoon logsDims False)
             (Inr [point (1430438430 * Second) 1000000000000000000000000000000])])"
proof -
  have kind: "knownKind ''BucketSizeBytes''" by (simp add: knownKind_def)
  have ok: "dimsOK (Dimensions logsSize)" by (simp add: logs_simps)
  note body = main_loop_body_known [OF logs_simps(1) kind ok, unfolded Let_def]
  show ?thesis
    unfolding body
    by (simp add: world_simps logs_simps point_simps number_examples ToLower_examples
        paramsFor_def unavailable_def lineOf_def lineFor_def sizeLine_def int64_of_float64_def
        getBucketSize_params_fields)
qed

text \<open>
  Claim C2. Every call of the statistics service, in every run and for every metric,
  asks for the minute from 00:00:00 UTC to 00:01:00 UTC of the target day, with a period
  of 60 seconds and the statistic \<^verbatim>\<open>Average\<close>: in the trace of a run every such
  call comes right after a reading of the clock and has the window of that reading, both
  functions build this window, and two readings of the clock on the same UTC day give
  the same query, whatever the time of the day.
\<close>

theorem C2_query_window:
  "queriesOK (opt_1 e) before (snd (main e)) \<and>
   isWindow now prev (getBucketSize_params now dims prev) \<and>
   isWindow now prev (getBucketObjectCount_params now dims prev) \<and>
   (utcDay now' = utcDay now \<longrightarrow>
      getBucketSize_params now' dims prev = getBucketSize_params now dims prev \<and>
      getBucketObjectCount_params now' dims prev = getBucketObjectCount_params now dims prev)"
  using main_queriesOK [of e before] isWindow_get_params [of now prev dims]
    params_same_day [of now' now dims prev]
  by simp

theorem C2_query_window_witness:
  "queriesOK False (Log [])
     [ListMetricsCall ''AWS/S3'' (Inr [logsSize]),
      NowCall atNoon,
      GetMetricStatisticsCall (getBucketSize_params atNoon logsDims False) (Inr []),
      Log ''bucket size not available for bucket logs'',
      Log ''No metrics were found for today.'',
      Log (''Try running it later in the day or run with '' @ [CHR 0x22] @ ''-1'' @ [CHR 0x22] @ '' flag.'')] \<and>
   StartTime (getBucketSize_params atNoon logsDims False) = 1430438400 * Second \<and>
   EndTime (getBucketSize_params atNoon logsDims False) = 1430438460 * Second \<and>
   Period (getBucketSize_params atNoon logsDims False) = 60 \<and>
   Statistics (getBucketSize_params atNoon logsDims False) = [''Average''] \<and>
   utcDay (time_Date 2015 5 1 0 0 30 0) = utcDay atNoon \<and>
   getBucketSize_params (time_Date 2015 5 1 0 0 30 0) logsDims False =
     getBucketSize_params atNoon logsDims False"
proof -
  have run: "snd (main (world (Inr [logsSize]) (Inr []) (Inr ()))) =
     [ListMetricsCall ''AWS/S3'' (Inr [logsSize]),
      NowCall atNoon,
      GetMetricStatisticsCall (getBucketSize_params atNoon logsDims False) (Inr []),
      Log ''bucket size not available for bucket logs'',
      Log ''No metrics were found for today.'',
      Log (''Try running it later in the day or run with '' @ [CHR 0x22] @ ''-1'' @ [CHR 0x22] @ '' flag.'')]"
    by (simp add: world_main world_loop_empty main_send_empty del: main_loop.simps)
  show ?thesis
    using C2_query_window [of "world (Inr [logsSize]) (Inr []) (Inr ())" "Log []" atNoon False
        logsDims "time_Date 2015 5 1 0 0 30 0"]
    unfolding run
    by (simp add: isWindow_def targetDay_def utcDay_examples midnight_def world_simps)
qed

text \<open>
  Claim C3. Without the option \<^verbatim>\<open>-1\<close> the day asked about is the current UTC date,
  with it the day before: the year, month and day that both functions pass on are those
  of the current day, or of the day before, and the window starts on that day.
\<close>

theorem C3_target_day:
  "targetDate now False = Date now \<and>
   Date now = civil_from_days (utcDay now) \<and>
   targetDate now True = civil_from_days (utcDay now - 1) \<and>
   utcDay (StartTime (getBucketSize_params now dims prev)) =
     (if prev then utcDay now - 1 else utcDay now) \<and>
   utcDay (StartTime (getBucketObjectCount_params now dims prev)) =
     (if prev then utcDay now - 1 else utcDay now)"
  using targetDate_eq [of now True] targetDate_eq [of now False]
  by (simp add: targetDay_def Date_def utcDay_def [symmetric] getBucketSize_params_eq
      getBucketObjectCount_params_eq utcDay_midnight)

theorem C3_target_day_witness:
  "targetDate atNoon False = (2015, 5, 1) \<and> targetDate atNoon True = (2015, 4, 30) \<and>
   utcDay (StartTime (getBucketSize_params atNoon logsDims True)) = 16555"
  using C3_target_day [of atNoon logsDims True]
  by (simp add: utcDay_examples calendar_examples)

text \<open>
  Claim C4. When the answer of the statistics service has no datapoint, the body of the
  loop appends no line and goes on (it does not stop the run); it logs that the size, or
  the count, is not available for the bucket. \<^verbatim>\<open>actualGet\<close> returns the zero
  time for this, which \<^verbatim>\<open>IsZero\<close> recognises. A datapoint with the value 0 is not
  taken for it: with a timestamp other than the zero time it comes back as that
  timestamp and 0.
\<close>

theorem C4_no_datapoint:
  assumes "MetricName m = Some mn"
    and "mn = ''BucketSizeBytes'' \<or> mn = ''NumberOfObjects''"
    and "dimsOK (Dimensions m)"
    and "GetMetricStatistics e (tr @ [NowCall (Now e tr)])
           (paramsFor mn (Now e tr) (Dimensions m) prev) = Inr []"
  shows "main_loop_body e prefix prev m (buf, tr) =
     Inr (buf,
          tr @ [NowCall (Now e tr),
                GetMetricStatisticsCall (paramsFor mn (Now e tr) (Dimensions m) prev) (Inr []),
                Log ((if mn = ''BucketSizeBytes'' then ''bucket size not available for bucket ''
                      else ''object count not available for bucket '') @
                     lastValue ''BucketName'' (Dimensions m))])
     \<and> actualGet e (paramsFor mn (Now e tr) (Dimensions m) prev) (tr @ [NowCall (Now e tr)]) =
       Inr ((zeroTime, 0),
            tr @ [NowCall (Now e tr),
                  GetMetricStatisticsCall (paramsFor mn (Now e tr) (Dimensions m) prev) (Inr [])])
     \<and> IsZero zeroTime
     \<and> (\<forall>e' p' tr' ts dps.
          \<not> IsZero ts \<longrightarrow> GetMetricStatistics e' tr' p' = Inr (point ts 0 # dps) \<longrightarrow>
          actualGet e' p' tr' =
            Inr ((ts, 0), tr' @ [GetMetricStatisticsCall p' (Inr (point ts 0 # dps))]))"
proof -
  have kind: "knownKind mn" using assms(2) by (simp add: knownKind_def)
  have 1: "main_loop_body e prefix prev m (buf, tr) =
     Inr (buf,
          tr @ [NowCall (Now e tr),
                GetMetricStatisticsCall (paramsFor mn (Now e tr) (Dimensions m) prev) (Inr []),
                Log ((if mn = ''BucketSizeBytes'' then ''bucket size not available for bucket ''
                      else ''object count not available for bucket '') @
                     lastValue ''BucketName'' (Dimensions m))])"
    unfolding main_loop_body_known [OF assms(1) kind assms(3)] Let_def
    using assms(4) by (simp add: unavailable_def)
  have 2: "actualGet e (paramsFor mn (Now e tr) (Dimensions m) prev) (tr @ [NowCall (Now e tr)]) =
       Inr ((zeroTime, 0),
            tr @ [NowCall (Now e tr),
                  GetMetricStatisticsCall (paramsFor mn (Now e tr) (Dimensions m) prev) (Inr [])])"
    using assms(4) by (simp add: actualGet_def)
  have 3: "actualGet e' p' tr' =
            Inr ((ts, 0), tr' @ [GetMetricStatisticsCall p' (Inr (point ts 0 # dps))])"
    if "GetMetricStatistics e' tr' p' = Inr (point ts 0 # dps)" for e' p' tr' ts dps
    using that
    by (simp add: actualGet_def point_simps int64_of_float64_def number_examples)
  show ?thesis using 1 2 3 by (simp add: number_examples)
qed

theorem C4_no_datapoint_witness:
  "main_loop_body (world (Inr [logsSize]) (Inr []) (Inr ())) ''s3.us-east-1.'' False logsSize
     (''kept'', [])
   = Inr (''kept'',
          [NowCall atNoon,
           GetMetricStatisticsCall (getBucketSize_params atNoon logsDims False) (Inr []),
           Log ''bucket size not available for bucket logs''])
   \<and>
   actualGet (world (Inr [logsSize]) (Inr [point (1430438430 * Second) 0]) (Inr ()))
     (getBucketSize_params atNoon logsDims False) []
   = Inr ((1430438430 * Second, 0),
          [GetMetricStatisticsCall (getBucketSize_params atNoon logsDims False)
             (Inr [point (1430438430 * Second) 0])])"
proof -
  note c4 = C4_no_datapoint [of logsSize "''BucketSizeBytes''"
      "world (Inr [logsSize]) (Inr []) (Inr ())" "[]" False "''s3.us-east-1.''" "''kept''"]
  have hyps: "MetricName logsSize = Some ''BucketSizeBytes''"
    "''BucketSizeBytes'' = ''BucketSizeBytes'' \<or> ''BucketSizeBytes'' = ''NumberOfObjects''"
    "dimsOK (Dimensions logsSize)"
    "GetMetricStatistics (world (Inr [logsSize]) (Inr []) (Inr ()))
       ([] @ [NowCall (Now (world (Inr [logsSize]) (Inr []) (Inr ())) [])])
       (paramsFor ''BucketSizeBytes'' (Now (world (Inr [logsSize]) (Inr []) (Inr ())) [])
          (Dimensions logsSize) False) = Inr []"
    by (simp_all add: world_simps logs_simps)
  note c = c4 [OF hyps]
  from c have first: "main_loop_body (world (Inr [logsSize]) (Inr []) (Inr ())) ''s3.us-east-1.'' False
      logsSize (''kept'', [])
    = Inr (''kept'',
          [NowCall atNoon,
           GetMetricStatisticsCall (getBucketSize_params atNoon logsDims False) (Inr []),
           Log ''bucket size not available for bucket logs''])"
    by (simp add: world_simps logs_simps paramsFor_def)
  from c have "\<forall>e' p' tr' ts dps.
          \<not> IsZero ts \<longrightarrow> GetMetricStatistics e' tr' p' = Inr (point ts 0 # dps) \<longrightarrow>
          actualGet e' p' tr' =
            Inr ((ts, 0), tr' @ [GetMetricStatisticsCall p' (Inr (point ts 0 # dps))])"
    by blast
  then have "actualGet (world (Inr [logsSize]) (Inr [point (1430438430 * Second) 0]) (Inr ()))
     (getBucketSize_params atNoon logsDims False) []
   = Inr ((1430438430 * Second, 0),
          [] @ [GetMetricStatisticsCall (getBucketSize_params atNoon logsDims False)
             (Inr (point (1430438430 * Second) 0 # []))])"
    by (rule allE [where x = "world (Inr [logsSize]) (Inr [point (1430438430 * Second) 0]) (Inr ())"])
      (simp add: world_simps number_examples)
  with first show ?thesis by simp
qed

text \<open>
  Claim C5. When the loop gets to its end and no datapoint was collected, the buffer is
  empty, the run dials no connection and writes nothing to the network, logs the two
  lines of its diagnostic and ends with status 0. And in every run, whatever its end: if
  there is an event on the network, a datapoint was collected.
\<close>

theorem C5_nothing_to_send:
  assumes \<open>envOK e\<close> and \<open>ResolveTCPAddr e (addrOf e) = Inr a\<close>
    and \<open>ListMetrics e ''AWS/S3'' = Inr ms\<close>
    and \<open>main_loop e (prefixOf e) (opt_1 e) ms ([], [ListMetricsCall ''AWS/S3'' (Inr ms)]) =
           Inr (buf, tr)\<close>
    and \<open>collectedPoints tr = []\<close>
  shows \<open>buf = [] \<and>
     main e = (0, tr @ [Log ''No metrics were found for today.'',
                        Log ''Try running it later in the day or run with "-1" flag.'']) \<and>
     filter isNet (snd (main e)) = [] \<and>
     (\<forall>e'. filter isNet (snd (main e')) \<noteq> [] \<longrightarrow> collectedPoints (snd (main e')) \<noteq> [])\<close>
proof -
  note fin = main_completed [OF assms(1-4)]
  have buf: "buf = []" using fin(2) assms(5) by simp
  have run: \<open>main e = (0, tr @ [Log ''No metrics were found for today.'',
                        Log ''Try running it later in the day or run with "-1" flag.''])\<close>
    using fin(1) buf by (simp add: main_send_empty)
  have "filter isNet (snd (main e)) = []" unfolding run using fin(3) by simp
  moreover have "\<forall>e'. filter isNet (snd (main e')) \<noteq> [] \<longrightarrow> collectedPoints (snd (main e')) \<noteq> []"
    using main_net_needs_lines by blast
  ultimately show ?thesis using buf run by blast
qed

theorem C5_nothing_to_send_witness:
  \<open>main (world (Inr [logsSize]) (Inr []) (Inr ())) =
     (0, [ListMetricsCall ''AWS/S3'' (Inr [logsSize]),
          NowCall atNoon,
          GetMetricStatisticsCall (getBucketSize_params atNoon logsDims False) (Inr []),
          Log ''bucket size not available for bucket logs'',
          Log ''No metrics were found for today.'',
          Log ''Try running it later in the day or run with "-1" flag.''])
   \<and> filter isNet (snd (main (world (Inr [logsSize]) (Inr []) (Inr ())))) = []\<close>
proof -
  have loop: "main_loop (world (Inr [logsSize]) (Inr []) (Inr ()))
      (prefixOf (world (Inr [logsSize]) (Inr []) (Inr ())))
      (opt_1 (world (Inr [logsSize]) (Inr []) (Inr ()))) [logsSize]
      ([], [ListMetricsCall ''AWS/S3'' (Inr [logsSize])]) =
    Inr ([], [ListMetricsCall ''AWS/S3'' (Inr [logsSize]), NowCall atNoon,
          GetMetricStatisticsCall (getBucketSize_params atNoon logsDims False) (Inr []),
          Log ''bucket size not available for bucket logs''])"
    by (simp add: world_simps world_loop_empty del: main_loop.simps)
  have none: "collectedPoints [ListMetricsCall ''AWS/S3'' (Inr [logsSize]), NowCall atNoon,
          GetMetricStatisticsCall (getBucketSize_params atNoon logsDims False) (Inr []),
          Log ''bucket size not available for bucket logs''] = []"
    by (simp add: collectedPoints_simps)
  show ?thesis
    using C5_nothing_to_send [OF world_simps(1) world_simps(5) world_simps(6) loop none]
    by simp
qed

text \<open>
  Claim C6, as amended. When the loop gets to its end and at least one datapoint was
  collected, the buffer is the lines of the collected datapoints, one after the other,
  and the run dials the address of the Graphite server once. If the dial succeeds, the
  events on the network are that dial, one write of the whole buffer and the close, and
  the run ends with status 0. If the dial fails, nothing is written and the run ends with
  status 1. (Claim C6 as stated, for every run that produces a line, fails when the dial
  fails: see the counterexample below.)
\<close>

theorem C6_one_connection:
  assumes "envOK e" and "ResolveTCPAddr e (addrOf e) = Inr a"
    and "ListMetrics e ''AWS/S3'' = Inr ms"
    and "main_loop e (prefixOf e) (opt_1 e) ms ([], [ListMetricsCall ''AWS/S3'' (Inr ms)]) =
           Inr (buf, tr)"
    and "collectedPoints tr \<noteq> []"
  shows "buf = concat (map (lineOf e (prefixOf e)) (collectedPoints tr)) \<and> buf \<noteq> [] \<and>
     (case DialTCP e (tr @ [Print buf,
               Print (''sending to graphite server at '' @ a @ '':'' @ [CHR 0x0A])]) a of
        Inr conn \<Rightarrow>
          fst (main e) = 0 \<and>
          filter isNet (snd (main e)) = [DialTCPCall a (Inr conn), ConnWrite buf, ConnClose]
      | Inl err \<Rightarrow>
          fst (main e) = 1 \<and>
          filter isNet (snd (main e)) = [DialTCPCall a (Inl err)])"
proof -
  note fin = main_completed [OF assms(1-4)]
  have ne: "buf \<noteq> []" using fin(2) assms(5) concat_lines_empty by metis
  have "case DialTCP e (tr @ [Print buf,
               Print (''sending to graphite server at '' @ a @ '':'' @ [CHR 0x0A])]) a of
        Inr conn \<Rightarrow>
          fst (main e) = 0 \<and>
          filter isNet (snd (main e)) = [DialTCPCall a (Inr conn), ConnWrite buf, ConnClose]
      | Inl err \<Rightarrow>
          fst (main e) = 1 \<and>
          filter isNet (snd (main e)) = [DialTCPCall a (Inl err)]"
    using fin(3) by (simp add: fin(1) main_send_lines [OF ne] split: sum.splits)
  then show ?thesis using fin(2) ne by blast
qed

theorem C6_one_connection_witness:
  "fst (main (world (Inr [logsSize]) (Inr [logsPoint]) (Inr ()))) = 0 \<and>
   filter isNet (snd (main (world (Inr [logsSize]) (Inr [logsPoint]) (Inr ())))) =
     [DialTCPCall ''127.0.0.1:2003'' (Inr ()),
      ConnWrite ''s3.us-east-1.logs.standardstorage.size 123456 1430438430\<newline>'',
      ConnClose]"
proof -
  define W where "W = world (Inr [logsSize]) (Inr [logsPoint]) (Inr ())"
  have loop: "main_loop W (prefixOf W) (opt_1 W) [logsSize]
      ([], [ListMetricsCall ''AWS/S3'' (Inr [logsSize])]) =
    Inr (''s3.us-east-1.logs.standardstorage.size 123456 1430438430\<newline>'',
         [ListMetricsCall ''AWS/S3'' (Inr [logsSize]), NowCall atNoon,
          GetMetricStatisticsCall (getBucketSize_params atNoon logsDims False) (Inr [logsPoint])])"
    by (simp add: W_def world_simps world_loop_size del: main_loop.simps)
  have some: "collectedPoints [ListMetricsCall ''AWS/S3'' (Inr [logsSize]), NowCall atNoon,
          GetMetricStatisticsCall (getBucketSize_params atNoon logsDims False) (Inr [logsPoint])] \<noteq> []"
    by (simp add: collectedPoints_simps point_simps number_examples)
  have env: "envOK W" "ResolveTCPAddr W (addrOf W) = Inr ''127.0.0.1:2003''"
    "ListMetrics W ''AWS/S3'' = Inr [logsSize]"
    by (simp_all add: W_def world_simps)
  show ?thesis
    using C6_one_connection [OF env loop some]
    by (simp add: W_def world_simps)
qed

text \<open>
  Against claim C6 as stated: one line is collected and the dial fails. The run ends with
  status 1; the buffer is not written and no connection is closed.
\<close>

theorem C6_counterexample:
  "main (world (Inr [logsSize]) (Inr [logsPoint]) (Inl ''connection refused'')) =
     (1, [ListMetricsCall ''AWS/S3'' (Inr [logsSize]),
          NowCall atNoon,
          GetMetricStatisticsCall (getBucketSize_params atNoon logsDims False) (Inr [logsPoint]),
          Print ''s3.us-east-1.logs.standardstorage.size 123456 1430438430\<newline>'',
          Print ''sending to graphite server at 127.0.0.1:2003:\<newline>'',
          DialTCPCall ''127.0.0.1:2003'' (Inl ''connection refused''),
          Log ''connection refused''])"
  by (simp add: world_main world_loop_size main_send_lines world_simps del: main_loop.simps)

text \<open>
  Claim C7. In every run, when a call of the listing or of the statistics service has
  returned an error, the run ends with status 1, nothing went to the network, and the
  failed call is the last thing the run did but for the log of the error: no call was
  made after it, so none was made again, and no call before it had failed.
\<close>

theorem C7_api_error_is_fatal:
  assumes "main e = (c, tr)" and "ev \<in> set tr" and "apiError ev"
  shows "c = 1 \<and> filter isNet tr = [] \<and>
         (\<exists>tr0 err. tr = tr0 @ [ev, Log err] \<and> filter apiError tr0 = [])"
proof -
  have "filter apiError tr \<noteq> []" using assms(2,3) by (auto simp add: filter_empty_conv)
  from main_api_error [OF assms(1) this] obtain tr0 ev' err
    where c: "c = 1" "filter isNet tr = []"
      and tr: "tr = tr0 @ [ev', Log err]" "apiError ev'" "filter apiError tr0 = []"
    by blast
  have "ev \<notin> set tr0" using tr(3) assms(3) by (auto simp add: filter_empty_conv)
  moreover have "ev \<noteq> Log err" using assms(3) by auto
  ultimately have "ev = ev'" using assms(2) tr(1) by simp
  then show ?thesis using c tr by blast
qed

theorem C7_api_error_is_fatal_witness:
  "main (world (Inl ''AccessDenied'') (Inr [logsPoint]) (Inr ())) =
     (1, [ListMetricsCall ''AWS/S3'' (Inl ''AccessDenied''), Log ''AccessDenied''])
   \<and>
   main (world (Inr [logsSize, logsCount]) (Inl ''Throttling'') (Inr ())) =
     (1, [ListMetricsCall ''AWS/S3'' (Inr [logsSize, logsCount]),
          NowCall atNoon,
          GetMetricStatisticsCall (getBucketSize_params atNoon logsDims False) (Inl ''Throttling''),
          Log ''Throttling''])
   \<and>
   filter isNet
     [ListMetricsCall ''AWS/S3'' (Inr [logsSize, logsCount]),
      NowCall atNoon,
      GetMetricStatisticsCall (getBucketSize_params atNoon logsDims False) (Inl ''Throttling''),
      Log ''Throttling''] = []
   \<and>
   (\<exists>tr0 err.
      [ListMetricsCall ''AWS/S3'' (Inr [logsSize, logsCount]),
       NowCall atNoon,
       GetMetricStatisticsCall (getBucketSize_params atNoon logsDims False) (Inl ''Throttling''),
       Log ''Throttling''] =
      tr0 @ [GetMetricStatisticsCall (getBucketSize_params atNoon logsDims False) (Inl ''Throttling''),
             Log err] \<and>
      filter apiError tr0 = [])"
proof -
  have list: "main (world (Inl ''AccessDenied'') (Inr [logsPoint]) (Inr ())) =
     (1, [ListMetricsCall ''AWS/S3'' (Inl ''AccessDenied''), Log ''AccessDenied''])"
    by (simp add: main_unfold world_simps)
  have stats: "main (world (Inr [logsSize, logsCount]) (Inl ''Throttling'') (Inr ())) =
     (1, [ListMetricsCall ''AWS/S3'' (Inr [logsSize, logsCount]),
          NowCall atNoon,
          GetMetricStatisticsCall (getBucketSize_params atNoon logsDims False) (Inl ''Throttling''),
          Log ''Throttling''])"
    by (simp add: world_main world_loop_error del: main_loop.simps)
  show ?thesis
    using list stats
      C7_api_error_is_fatal [OF stats,
        of "GetMetricStatisticsCall (getBucketSize_params atNoon logsDims False) (Inl ''Throttling'')"]
    by simp
qed

text \<open>
  Claim C8. For a metric whose name is neither \<^verbatim>\<open>BucketSizeBytes\<close> nor
  \<^verbatim>\<open>NumberOfObjects\<close> the body of the loop leaves the buffer and the trace as they
  are: no call of the statistics service, no line. (It panics, also without a call or a
  line, when a dimension cannot be read.)
\<close>

theorem C8_other_metrics_ignored:
  assumes "MetricName m = Some mn" "mn \<noteq> ''BucketSizeBytes''" "mn \<noteq> ''NumberOfObjects''"
  shows "main_loop_body e prefix prev m (buf, tr) =
           (if dimsOK (Dimensions m) then Inr (buf, tr) else Inl (2, tr))"
  using assms main_loop_body_other [of m mn e prefix prev buf tr]
  by (simp add: knownKind_def)

theorem C8_other_metrics_ignored_witness:
  "main_loop_body (world (Inr []) (Inr [logsPoint]) (Inr ())) ''s3.us-east-1.'' False
     \<lparr>MetricName = Some ''AllRequests'', Dimensions = logsDims\<rparr> (''kept'', [Log ''before''])
   = Inr (''kept'', [Log ''before''])"
  using C8_other_metrics_ignored [of "\<lparr>MetricName = Some ''AllRequests'', Dimensions = logsDims\<rparr>"
      "''AllRequests''" "world (Inr []) (Inr [logsPoint]) (Inr ())" "''s3.us-east-1.''" False
      "''kept''" "[Log ''before'']"]
  by (simp add: dimsOK_def dimOK_def logsDims_def dim_def)



text \<open>
  Claim C10, as amended. The program does not check that the two dimensions are there.
  For a \<^verbatim>\<open>BucketSizeBytes\<close> metric whose dimensions can be read and whose first
  datapoint has a timestamp other than the zero time and an average: without a
  \<^verbatim>\<open>StorageType\<close> dimension the line has two dots before \<^verbatim>\<open>size\<close>, and
  without a \<^verbatim>\<open>BucketName\<close> dimension the line has nothing between the prefix and
  the dot before the storage type (as \<^verbatim>\<open>strings.ToLower\<close> gives it). (As stated, for every such metric with a datapoint,
  the claim fails on a datapoint stamped with the zero time, as claim C1 does.)
\<close>

theorem C10_missing_dimensions:
  assumes "MetricName m = Some ''BucketSizeBytes''"
    and "dimsOK (Dimensions m)"
    and "GetMetricStatistics e (tr @ [NowCall (Now e tr)])
           (getBucketSize_params (Now e tr) (Dimensions m) prev) = Inr (dp # dps)"
    and "Timestamp dp = Some ts" and "\<not> IsZero ts" and "Average dp = Some avg"
  shows
    "((\<forall>d \<in> set (Dimensions m). Name d \<noteq> Some ''StorageType'') \<longrightarrow>
        main_loop_body e prefix prev m (buf, tr) =
          Inr (buf @ prefix @ lastValue ''BucketName'' (Dimensions m) @ ''..size '' @
                 showInt (sint (int64_of_float64 (float64_impl e) avg)) @ '' '' @
                 showInt (Unix ts) @ [CHR 0x0A],
               tr @ [NowCall (Now e tr),
                     GetMetricStatisticsCall (getBucketSize_params (Now e tr) (Dimensions m) prev)
                       (Inr (dp # dps))]))
     \<and>
     ((\<forall>d \<in> set (Dimensions m). Name d \<noteq> Some ''BucketName'') \<longrightarrow>
        main_loop_body e prefix prev m (buf, tr) =
          Inr (buf @ prefix @ ''.'' @ ToLower e (lastValue ''StorageType'' (Dimensions m)) @
                 ''.size '' @ showInt (sint (int64_of_float64 (float64_impl e) avg)) @ '' '' @
                 showInt (Unix ts) @ [CHR 0x0A],
               tr @ [NowCall (Now e tr),
                     GetMetricStatisticsCall (getBucketSize_params (Now e tr) (Dimensions m) prev)
                       (Inr (dp # dps))]))"
proof -
  have kind: "knownKind ''BucketSizeBytes''" by (simp add: knownKind_def)
  have body: "main_loop_body e prefix prev m (buf, tr) =
      Inr (buf @ prefix @ lastValue ''BucketName'' (Dimensions m) @ ''.'' @
             ToLower e (lastValue ''StorageType'' (Dimensions m)) @ ''.size '' @
             showInt (sint (int64_of_float64 (float64_impl e) avg)) @ '' '' @
             showInt (Unix ts) @ [CHR 0x0A],
           tr @ [NowCall (Now e tr),
                 GetMetricStatisticsCall (getBucketSize_params (Now e tr) (Dimensions m) prev)
                   (Inr (dp # dps))])"
    unfolding main_loop_body_known [OF assms(1) kind assms(2)] Let_def
    using assms(3-6)
    by (simp add: paramsFor_def lineOf_def lineFor_def sizeLine_def getBucketSize_params_fields)
  show ?thesis
    unfolding body by (simp add: lastValue_absent ToLower_examples)
qed

theorem C10_missing_dimensions_witness:
  "main_loop_body (world (Inr []) (Inr [logsPoint]) (Inr ())) ''s3.us-east-1.'' False
     \<lparr>MetricName = Some ''BucketSizeBytes'', Dimensions = [dim ''BucketName'' ''logs'']\<rparr> ([], [])
   = Inr (''s3.us-east-1.logs..size 123456 1430438430\<newline>'',
          [NowCall atNoon,
           GetMetricStatisticsCall (getBucketSize_params atNoon [dim ''BucketName'' ''logs''] False)
             (Inr [logsPoint])])
   \<and>
   main_loop_body (world (Inr []) (Inr [logsPoint]) (Inr ())) ''s3.us-east-1.'' False
     \<lparr>MetricName = Some ''BucketSizeBytes'', Dimensions = [dim ''StorageType'' ''StandardStorage'']\<rparr>
     ([], [])
   = Inr (''s3.us-east-1..standardstorage.size 123456 1430438430\<newline>'',
          [NowCall atNoon,
           GetMetricStatisticsCall
             (getBucketSize_params atNoon [dim ''StorageType'' ''StandardStorage''] False)
             (Inr [logsPoint])])"
  using C10_missing_dimensions [of
      "\<lparr>MetricName = Some ''BucketSizeBytes'', Dimensions = [dim ''BucketName'' ''logs'']\<rparr>"
      "world (Inr []) (Inr [logsPoint]) (Inr ())" "[]" False logsPoint "[]"
      "1430438430 * Second" "Finite (8483879823553331 / 68719476736)" "''s3.us-east-1.''" "[]"]
    C10_missing_dimensions [of
      "\<lparr>MetricName = Some ''BucketSizeBytes'', Dimensions = [dim ''StorageType'' ''StandardStorage'']\<rparr>"
      "world (Inr []) (Inr [logsPoint]) (Inr ())" "[]" False logsPoint "[]"
      "1430438430 * Second" "Finite (8483879823553331 / 68719476736)" "''s3.us-east-1.''" "[]"]
  by (simp add: world_simps logs_simps point_simps number_examples ToLower_examples
      int64_of_float64_def dim_simps)

text \<open>
  Against claim C10 as stated: a \<^verbatim>\<open>BucketSizeBytes\<close> metric without a
  \<^verbatim>\<open>StorageType\<close> dimension, and an answer with one datapoint, stamped with the
  zero time: no line.
\<close>

theorem C10_counterexample:
  "main_loop_body (world (Inr []) (Inr [point zeroTime 5]) (Inr ())) ''s3.us-east-1.'' False
     \<lparr>MetricName = Some ''BucketSizeBytes'', Dimensions = [dim ''BucketName'' ''logs'']\<rparr> ([], [])
   = Inr ([],
          [NowCall atNoon,
           GetMetricStatisticsCall (getBucketSize_params atNoon [dim ''BucketName'' ''logs''] False)
             (Inr [point zeroTime 5]),
           Log ''bucket size not available for bucket logs''])"
proof -
  have kind: "knownKind ''BucketSizeBytes''" by (simp add: knownKind_def)
  have mn: "MetricName \<lparr>MetricName = Some ''BucketSizeBytes'', Dimensions = [dim ''BucketName'' ''logs'']\<rparr>
      = Some ''BucketSizeBytes''" by simp
  have ok: "dimsOK (Dimensions \<lparr>MetricName = Some ''BucketSizeBytes'', Dimensions = [dim ''BucketName'' ''logs'']\<rparr>)"
    by (simp add: logs_simps)
  note body = main_loop_body_known [OF mn kind ok, unfolded Let_def]
  show ?thesis
    unfolding body
    by (simp add: world_simps logs_simps point_simps number_examples paramsFor_def
        unavailable_def)
qed

end
